theory Spec2Isabelle
  imports Complex_Main
begin

section \<open>Data model (types/whiteboard.ts)\<close>

text \<open>
  JavaScript numbers are modelled as exact reals: rounding of IEEE doubles, NaN and the
  infinities are outside the model. Optional fields (\<open>width?: number\<close>) are options,
  \<open>None\<close> standing for \<open>undefined\<close>. Record fields carry a prefix, since \<open>x\<close>, \<open>y\<close>
  and \<open>id\<close> occur in several interfaces.
\<close>

datatype Tool = Select | Pen | Rectangle | Circle | Arrow | Line | Text | StickyNote | RichNoteTool

text \<open>The string a tool is at run time (\<open>tool as any\<close> in \<open>createNewElement\<close>).\<close>

fun tool_str :: "Tool \<Rightarrow> string" where
  "tool_str Select = ''select''"
| "tool_str Pen = ''pen''"
| "tool_str Rectangle = ''rectangle''"
| "tool_str Circle = ''circle''"
| "tool_str Arrow = ''arrow''"
| "tool_str Line = ''line''"
| "tool_str Text = ''text''"
| "tool_str StickyNote = ''sticky-note''"
| "tool_str RichNoteTool = ''rich-note''"

record Point =
  p_x :: real
  p_y :: real

record Comment =
  cm_id :: string
  cm_text :: string
  cm_author :: string
  cm_authorId :: string
  cm_timestamp :: real
  cm_resolved :: "bool option"

record RichNote =
  rn_id :: string
  rn_content :: string
  rn_comments :: "Comment list"
  rn_lastEditedBy :: "string option"
  rn_lastEditedAt :: "real option"

text \<open>
  The \<open>type\<close> field is kept as the string it is at run time: elements also arrive from
  other users and from storage, and \<open>createNewElement\<close> casts the tool to it.
\<close>

record WhiteboardElement =
  el_id :: string
  el_type :: string
  el_x :: real
  el_y :: real
  el_width :: "real option"
  el_height :: "real option"
  el_points :: "Point list option"
  el_text :: "string option"
  el_color :: string
  el_strokeWidth :: real
  el_fill :: "string option"
  el_selected :: "bool option"
  el_richNote :: "RichNote option"

record ViewportState =
  vp_x :: real
  vp_y :: real
  vp_zoom :: real

record DrawingState =
  isDrawing :: bool
  currentPath :: "Point list"
  currentElement :: "WhiteboardElement option"

record User =
  u_id :: string
  u_email :: string
  u_displayName :: string

record UserCursor =
  c_userId :: string
  c_x :: real
  c_y :: real
  c_displayName :: string
  c_color :: string

record CollaborationState =
  users :: "User list"
  cursors :: "UserCursor list"
  isConnected :: bool

subsection \<open>JavaScript truthiness of optional fields\<close>

text \<open>\<open>v || d\<close> on an optional number: \<open>undefined\<close> and \<open>0\<close> are falsy.\<close>

definition num_or :: "real option \<Rightarrow> real \<Rightarrow> real" where
  "num_or v d = (case v of None \<Rightarrow> d | Some n \<Rightarrow> if n = 0 then d else n)"

text \<open>\<open>v || d\<close> on an optional string: \<open>undefined\<close> and the empty string are falsy.\<close>

definition str_or :: "string option \<Rightarrow> string \<Rightarrow> string" where
  "str_or v d = (case v of None \<Rightarrow> d | Some t \<Rightarrow> if t = [] then d else t)"

definition str_truthy :: "string option \<Rightarrow> bool" where
  "str_truthy v = (case v of None \<Rightarrow> False | Some t \<Rightarrow> t \<noteq> [])"


section \<open>Geometry (components/Canvas.tsx)\<close>

text \<open>
  The bounding rectangle of the canvas element, as \<open>getBoundingClientRect\<close> returns it.
  \<open>canvasRef.current\<close> is an option: \<open>None\<close> is the unmounted canvas.
\<close>

record DOMRect =
  rect_left :: real
  rect_top :: real

definition screenToCanvas :: "DOMRect option \<Rightarrow> ViewportState \<Rightarrow> real \<Rightarrow> real \<Rightarrow> Point" where
  "screenToCanvas canvas viewport screenX screenY =
     (case canvas of
        None \<Rightarrow> \<lparr>p_x = 0, p_y = 0\<rparr>
      | Some rect \<Rightarrow>
          \<lparr>p_x = (screenX - rect_left rect - vp_x viewport) / vp_zoom viewport,
           p_y = (screenY - rect_top rect - vp_y viewport) / vp_zoom viewport\<rparr>)"

text \<open>
  The forward transform of \<open>redraw\<close> (\<open>ctx.translate(viewport.x, viewport.y)\<close> followed
  by \<open>ctx.scale(viewport.zoom, viewport.zoom)\<close>): where a world point lands on the
  canvas.
\<close>

definition worldToCanvas :: "ViewportState \<Rightarrow> Point \<Rightarrow> Point" where
  "worldToCanvas viewport w =
     \<lparr>p_x = p_x w * vp_zoom viewport + vp_x viewport,
      p_y = p_y w * vp_zoom viewport + vp_y viewport\<rparr>"


text \<open>
  \<open>isPointInElement\<close>: the \<open>switch\<close> on \<open>element.type\<close>, the cases in the source's
  order. \<open>Math.sqrt\<close> is the real square root.
\<close>

definition isPointInElement :: "Point \<Rightarrow> WhiteboardElement \<Rightarrow> bool" where
  "isPointInElement point element =
     (if el_type element = ''rectangle'' \<or> el_type element = ''sticky-note'' then
        p_x point \<ge> el_x element \<and>
        p_x point \<le> el_x element + num_or (el_width element) 0 \<and>
        p_y point \<ge> el_y element \<and>
        p_y point \<le> el_y element + num_or (el_height element) 0
      else if el_type element = ''circle'' then
        (let centerX = el_x element + num_or (el_width element) 0 / 2;
             centerY = el_y element + num_or (el_height element) 0 / 2;
             radius = min (num_or (el_width element) 0 / 2) (num_or (el_height element) 0 / 2);
             distance = sqrt ((p_x point - centerX) ^ 2 + (p_y point - centerY) ^ 2)
         in distance \<le> radius)
      else False)"

section \<open>Element creation and live update (components/Canvas.tsx)\<close>

text \<open>\<open>generateId()\<close> draws on \<open>Math.random\<close>: the identifier is a parameter.\<close>

definition createNewElement :: "string \<Rightarrow> Tool \<Rightarrow> Point \<Rightarrow> string \<Rightarrow> real \<Rightarrow> WhiteboardElement" where
  "createNewElement newId tool point color width =
     (case tool of
        Pen \<Rightarrow>
          \<lparr>el_id = newId, el_type = ''path'', el_x = p_x point, el_y = p_y point,
           el_width = None, el_height = None, el_points = Some [point], el_text = None,
           el_color = color, el_strokeWidth = width, el_fill = None, el_selected = None,
           el_richNote = None\<rparr>
      | Text \<Rightarrow>
          \<lparr>el_id = newId, el_type = ''text'', el_x = p_x point, el_y = p_y point,
           el_width = None, el_height = None, el_points = None, el_text = Some ''Text'',
           el_color = color, el_strokeWidth = width, el_fill = None, el_selected = None,
           el_richNote = None\<rparr>
      | StickyNote \<Rightarrow>
          \<lparr>el_id = newId, el_type = ''sticky-note'', el_x = p_x point, el_y = p_y point,
           el_width = Some 100, el_height = Some 100, el_points = None, el_text = Some ''Note'',
           el_color = color, el_strokeWidth = width, el_fill = Some ''#fef08a'',
           el_selected = None, el_richNote = None\<rparr>
      | _ \<Rightarrow>
          \<lparr>el_id = newId, el_type = tool_str tool, el_x = p_x point, el_y = p_y point,
           el_width = Some 0, el_height = Some 0, el_points = None, el_text = None,
           el_color = color, el_strokeWidth = width, el_fill = None, el_selected = None,
           el_richNote = None\<rparr>)"

definition updateElementWithPoint ::
    "WhiteboardElement \<Rightarrow> Point \<Rightarrow> Point list \<Rightarrow> WhiteboardElement" where
  "updateElementWithPoint element point path =
     (if el_type element = ''path'' then
        element\<lparr>el_points := Some (path @ [point])\<rparr>
      else if el_type element = ''rectangle'' \<or> el_type element = ''circle'' then
        element\<lparr>el_width := Some (p_x point - el_x element),
                el_height := Some (p_y point - el_y element)\<rparr>
      else if el_type element = ''line'' then
        element\<lparr>el_width := Some (p_x point - el_x element),
                el_height := Some (p_y point - el_y element)\<rparr>
      else element)"

section \<open>Messages of the realtime channel (hooks/useCollaboration.ts)\<close>

record Metadata =
  md_displayName :: "string option"
  md_color :: "string option"

text \<open>
  A message is tagged by its \<open>type\<close>; the constructors carry \<open>userId\<close>, the fields of
  \<open>data\<close> and \<open>metadata\<close>. \<open>CursorMove userId x y timestamp metadata\<close>,
  \<open>ElementsUpdate userId elements timestamp metadata\<close>, \<open>OtherMessage type userId\<close>.
\<close>

datatype Message =
    CursorMove string real real real "Metadata option"
  | ElementsUpdate string "WhiteboardElement list" real "Metadata option"
  | OtherMessage string string

section \<open>Application state\<close>

text \<open>
  The React state of \<open>App\<close> (\<open>elements\<close> to \<open>historyIndex\<close>), of \<open>Canvas\<close>
  (\<open>drawingState\<close>, \<open>isPanning\<close>, \<open>lastPanPoint\<close>), of \<open>useCollaboration\<close>
  (\<open>collaboration\<close>, \<open>currentUser\<close>, \<open>userColor\<close>) and of
  \<open>useWhiteboardPersistence\<close> (\<open>currentSession\<close>, by its id), in one record. Every
  handler runs on the single UI event loop against the state of the latest render, so
  a handler is a function from state to state. Two logs record the effects that leave
  the application: \<open>published\<close>, the messages handed to \<open>blink.realtime.publish\<close>, and
  \<open>saveRequests\<close>, the collections handed to \<open>saveElements\<close>.
\<close>

record Whiteboard =
  elements :: "WhiteboardElement list"
  activeTool :: Tool
  strokeColor :: string
  strokeWidth :: real
  viewport :: ViewportState
  history :: "WhiteboardElement list list"
  historyIndex :: nat
  drawingState :: DrawingState
  isPanning :: bool
  lastPanPoint :: Point
  collaboration :: CollaborationState
  currentUser :: "User option"
  userColor :: string
  currentSession :: "string option"
  published :: "Message list"
  saveRequests :: "WhiteboardElement list list"

definition initialState :: Whiteboard where
  "initialState =
     \<lparr>elements = [], activeTool = Pen, strokeColor = ''#000000'', strokeWidth = 2,
      viewport = \<lparr>vp_x = 0, vp_y = 0, vp_zoom = 1\<rparr>,
      history = [[]], historyIndex = 0,
      drawingState = \<lparr>isDrawing = False, currentPath = [], currentElement = None\<rparr>,
      isPanning = False, lastPanPoint = \<lparr>p_x = 0, p_y = 0\<rparr>,
      collaboration = \<lparr>users = [], cursors = [], isConnected = False\<rparr>,
      currentUser = None, userColor = [], currentSession = None,
      published = [], saveRequests = []\<rparr>"

section \<open>History (App.tsx)\<close>

definition handleCollaborativeElementsUpdate ::
    "WhiteboardElement list \<Rightarrow> Whiteboard \<Rightarrow> Whiteboard" where
  "handleCollaborativeElementsUpdate newElements s = s\<lparr>elements := newElements\<rparr>"

definition handleElementsChange :: "WhiteboardElement list \<Rightarrow> Whiteboard \<Rightarrow> Whiteboard" where
  "handleElementsChange newElements s =
     (let newHistory = take (historyIndex s + 1) (history s) @ [newElements]
      in s\<lparr>elements := newElements,
            history := newHistory,
            historyIndex := length newHistory - 1,
            saveRequests := (if currentSession s \<noteq> None
                             then saveRequests s @ [newElements] else saveRequests s)\<rparr>)"

text \<open>
  \<open>history[newIndex]\<close> past the end of the array is \<open>undefined\<close> in JavaScript, and an
  \<open>undefined\<close> element collection breaks the next render: that read is an error value
  here.
\<close>

datatype error = UndefinedSnapshot

definition snapshotAt :: "WhiteboardElement list list \<Rightarrow> nat \<Rightarrow> error + WhiteboardElement list" where
  "snapshotAt h i = (if i < length h then Inr (h ! i) else Inl UndefinedSnapshot)"

definition handleUndo :: "Whiteboard \<Rightarrow> error + Whiteboard" where
  "handleUndo s =
     (if historyIndex s > 0 then
        (let newIndex = historyIndex s - 1
         in case snapshotAt (history s) newIndex of
              Inl e \<Rightarrow> Inl e
            | Inr snapshot \<Rightarrow> Inr (s\<lparr>historyIndex := newIndex, elements := snapshot\<rparr>))
      else Inr s)"

definition handleRedo :: "Whiteboard \<Rightarrow> error + Whiteboard" where
  "handleRedo s =
     (if int (historyIndex s) < int (length (history s)) - 1 then
        (let newIndex = historyIndex s + 1
         in case snapshotAt (history s) newIndex of
              Inl e \<Rightarrow> Inl e
            | Inr snapshot \<Rightarrow> Inr (s\<lparr>historyIndex := newIndex, elements := snapshot\<rparr>))
      else Inr s)"

text \<open>The callback of \<open>loadElements(currentSession.id).then\<close>.\<close>

definition onElementsLoaded :: "WhiteboardElement list \<Rightarrow> Whiteboard \<Rightarrow> Whiteboard" where
  "onElementsLoaded loadedElements s =
     (if length loadedElements > 0 then
        s\<lparr>elements := loadedElements, history := [[], loadedElements], historyIndex := 1\<rparr>
      else s)"

section \<open>Collaboration (hooks/useCollaboration.ts)\<close>

text \<open>\<open>Date.now()\<close> is the parameter \<open>now\<close>.\<close>

definition broadcastCursor :: "real \<Rightarrow> real \<Rightarrow> real \<Rightarrow> Whiteboard \<Rightarrow> Whiteboard" where
  "broadcastCursor now cx cy s =
     (case currentUser s of
        None \<Rightarrow> s
      | Some u \<Rightarrow>
          s\<lparr>published := published s @
               [CursorMove (u_id u) cx cy now
                  (Some \<lparr>md_displayName = Some (u_displayName u),
                         md_color = Some (userColor s)\<rparr>)]\<rparr>)"

definition broadcastElementChange :: "real \<Rightarrow> WhiteboardElement list \<Rightarrow> Whiteboard \<Rightarrow> Whiteboard" where
  "broadcastElementChange now els s =
     (case currentUser s of
        None \<Rightarrow> s
      | Some u \<Rightarrow>
          s\<lparr>published := published s @
               [ElementsUpdate (u_id u) els now
                  (Some \<lparr>md_displayName = Some (u_displayName u), md_color = None\<rparr>)]\<rparr>)"

text \<open>\<open>message.metadata?.displayName\<close> and \<open>message.metadata?.color\<close>.\<close>

definition metadataDisplayName :: "Metadata option \<Rightarrow> string option" where
  "metadataDisplayName md = (case md of None \<Rightarrow> None | Some m \<Rightarrow> md_displayName m)"

definition metadataColor :: "Metadata option \<Rightarrow> string option" where
  "metadataColor md = (case md of None \<Rightarrow> None | Some m \<Rightarrow> md_color m)"

text \<open>
  The handler given to \<open>channel.onMessage\<close>. \<open>user\<close> is the signed-in user the
  subscription was made for; \<open>onElementsUpdate\<close> is \<open>handleCollaborativeElementsUpdate\<close>,
  which \<open>App\<close> always passes.
\<close>

definition onMessage :: "User \<Rightarrow> Message \<Rightarrow> Whiteboard \<Rightarrow> Whiteboard" where
  "onMessage user message s =
     (case message of
        CursorMove userId mx my timestamp md \<Rightarrow>
          if userId \<noteq> u_id user then
            s\<lparr>collaboration := (collaboration s)
                 \<lparr>cursors := filter (\<lambda>c. c_userId c \<noteq> userId) (cursors (collaboration s)) @
                    [\<lparr>c_userId = userId, c_x = mx, c_y = my,
                      c_displayName = str_or (metadataDisplayName md) ''Anonymous'',
                      c_color = str_or (metadataColor md) ''#666''\<rparr>]\<rparr>\<rparr>
          else s
      | ElementsUpdate userId els timestamp md \<Rightarrow>
          if userId \<noteq> u_id user then handleCollaborativeElementsUpdate els s else s
      | OtherMessage ty userId \<Rightarrow> s)"

text \<open>\<open>message.userId\<close>, and whether \<open>message.type\<close> is \<open>'cursor-move'\<close>.\<close>

fun messageUserId :: "Message \<Rightarrow> string" where
  "messageUserId (CursorMove userId mx my timestamp md) = userId"
| "messageUserId (ElementsUpdate userId els timestamp md) = userId"
| "messageUserId (OtherMessage ty userId) = userId"

fun isCursorMove :: "Message \<Rightarrow> bool" where
  "isCursorMove (CursorMove userId mx my timestamp md) = True"
| "isCursorMove _ = False"

text \<open>The handler on the messages of the channel, in the order of their delivery.\<close>

definition onMessages :: "User \<Rightarrow> Message list \<Rightarrow> Whiteboard \<Rightarrow> Whiteboard" where
  "onMessages user msgs s = foldl (\<lambda>st m. onMessage user m st) s msgs"

section \<open>Pointer and wheel handlers (components/Canvas.tsx)\<close>

definition handleMouseDown ::
    "DOMRect option \<Rightarrow> string \<Rightarrow> real \<Rightarrow> real \<Rightarrow> Whiteboard \<Rightarrow> Whiteboard" where
  "handleMouseDown canvas newId clientX clientY s =
     (let point = screenToCanvas canvas (viewport s) clientX clientY
      in if activeTool s = Select then
           (case find (isPointInElement point) (elements s) of
              Some clickedElement \<Rightarrow>
                handleElementsChange
                  (map (\<lambda>el. el\<lparr>el_selected := Some (el_id el = el_id clickedElement)\<rparr>)
                     (elements s)) s
            | None \<Rightarrow>
                handleElementsChange
                  (map (\<lambda>el. el\<lparr>el_selected := Some False\<rparr>) (elements s))
                  (s\<lparr>isPanning := True, lastPanPoint := \<lparr>p_x = clientX, p_y = clientY\<rparr>\<rparr>))
         else
           s\<lparr>drawingState :=
               \<lparr>isDrawing = True, currentPath = [point],
                currentElement =
                  Some (createNewElement newId (activeTool s) point (strokeColor s) (strokeWidth s))\<rparr>\<rparr>)"

definition handleMouseMove ::
    "DOMRect option \<Rightarrow> real \<Rightarrow> real \<Rightarrow> real \<Rightarrow> Whiteboard \<Rightarrow> Whiteboard" where
  "handleMouseMove canvas now clientX clientY s =
     (let point = screenToCanvas canvas (viewport s) clientX clientY;
          s1 = broadcastCursor now (p_x point) (p_y point) s
      in if isPanning s then
           (let deltaX = clientX - p_x (lastPanPoint s);
                deltaY = clientY - p_y (lastPanPoint s)
            in s1\<lparr>viewport := (viewport s)\<lparr>vp_x := vp_x (viewport s) + deltaX,
                                             vp_y := vp_y (viewport s) + deltaY\<rparr>,
                   lastPanPoint := \<lparr>p_x = clientX, p_y = clientY\<rparr>\<rparr>)
         else
           (case currentElement (drawingState s) of
              None \<Rightarrow> s1
            | Some cur \<Rightarrow>
                if \<not> isDrawing (drawingState s) then s1
                else
                  s1\<lparr>drawingState := (drawingState s)
                       \<lparr>currentPath :=
                          (if activeTool s = Pen then currentPath (drawingState s) @ [point]
                           else currentPath (drawingState s)),
                        currentElement :=
                          Some (updateElementWithPoint cur point (currentPath (drawingState s)))\<rparr>\<rparr>))"

definition handleMouseUp :: "real \<Rightarrow> Whiteboard \<Rightarrow> Whiteboard" where
  "handleMouseUp now s =
     (if isPanning s then s\<lparr>isPanning := False\<rparr>
      else
        (let s1 =
           (case currentElement (drawingState s) of
              None \<Rightarrow> s
            | Some cur \<Rightarrow>
                if isDrawing (drawingState s) then
                  (let newElements = elements s @ [cur]
                   in broadcastElementChange now newElements (handleElementsChange newElements s))
                else s)
         in s1\<lparr>drawingState := \<lparr>isDrawing = False, currentPath = [], currentElement = None\<rparr>\<rparr>))"

definition handleWheel ::
    "DOMRect option \<Rightarrow> real \<Rightarrow> real \<Rightarrow> real \<Rightarrow> Whiteboard \<Rightarrow> Whiteboard" where
  "handleWheel canvas clientX clientY deltaY s =
     (let zoomFactor = (if deltaY > 0 then 0.9 else 1.1);
          newZoom = max 0.1 (min 5 (vp_zoom (viewport s) * zoomFactor))
      in case canvas of
           None \<Rightarrow> s
         | Some rect \<Rightarrow>
             (let mouseX = clientX - rect_left rect;
                  mouseY = clientY - rect_top rect
              in s\<lparr>viewport :=
                     \<lparr>vp_x = vp_x (viewport s) -
                        (mouseX - vp_x (viewport s)) * (newZoom / vp_zoom (viewport s) - 1),
                      vp_y = vp_y (viewport s) -
                        (mouseY - vp_y (viewport s)) * (newZoom / vp_zoom (viewport s) - 1),
                      vp_zoom = newZoom\<rparr>\<rparr>))"

text \<open>A wheel event: the canvas rectangle at that moment, \<open>clientX\<close>, \<open>clientY\<close>, \<open>deltaY\<close>.\<close>

type_synonym WheelEvent = "DOMRect option \<times> real \<times> real \<times> real"

definition wheelEvents :: "WheelEvent list \<Rightarrow> Whiteboard \<Rightarrow> Whiteboard" where
  "wheelEvents evs s = foldl (\<lambda>st (canvas, cx, cy, dy). handleWheel canvas cx cy dy st) s evs"

section \<open>Operation sequences on the history\<close>

text \<open>
  The operations that touch the element collection and the history: a local commit
  (\<open>onElementsChange\<close>, that is \<open>handleElementsChange\<close>), undo, redo, an elements-update
  of another user, and the load of a session. \<open>run\<close> applies a sequence from left to
  right and stops at the first error.
\<close>

datatype Op =
    Commit "WhiteboardElement list"
  | Undo
  | Redo
  | RemoteUpdate "WhiteboardElement list"
  | SessionLoad "WhiteboardElement list"

fun step :: "Op \<Rightarrow> Whiteboard \<Rightarrow> error + Whiteboard" where
  "step (Commit els) s = Inr (handleElementsChange els s)"
| "step Undo s = handleUndo s"
| "step Redo s = handleRedo s"
| "step (RemoteUpdate els) s = Inr (handleCollaborativeElementsUpdate els s)"
| "step (SessionLoad els) s = Inr (onElementsLoaded els s)"

fun run :: "Op list \<Rightarrow> Whiteboard \<Rightarrow> error + Whiteboard" where
  "run [] s = Inr s"
| "run (opn # ops) s = (case step opn s of Inl e \<Rightarrow> Inl e | Inr s' \<Rightarrow> run ops s')"

text \<open>The payloads of the remote updates of a sequence.\<close>

fun remotePayloads :: "Op list \<Rightarrow> WhiteboardElement list list" where
  "remotePayloads [] = []"
| "remotePayloads (RemoteUpdate els # ops) = els # remotePayloads ops"
| "remotePayloads (_ # ops) = remotePayloads ops"

section \<open>Rendering (components/Canvas.tsx and App.tsx)\<close>








section \<open>Coordinate conversion\<close>

text \<open>
  C3. \<open>screenToCanvas\<close> computes \<open>(screen - viewport offset) / zoom\<close> on both axes, the
  screen point being the pointer position relative to the canvas (client position minus
  the origin of the bounding rectangle), and it inverts the forward transform exactly:
  for a nonzero zoom, scaling the world point by the zoom and adding the viewport offset
  gives the screen point back.
\<close>

theorem screenToCanvas_inverse:
  assumes "vp_zoom vp \<noteq> 0"
  shows "screenToCanvas (Some rect) vp screenX screenY =
           \<lparr>p_x = ((screenX - rect_left rect) - vp_x vp) / vp_zoom vp,
            p_y = ((screenY - rect_top rect) - vp_y vp) / vp_zoom vp\<rparr>
         \<and> worldToCanvas vp (screenToCanvas (Some rect) vp screenX screenY) =
           \<lparr>p_x = screenX - rect_left rect, p_y = screenY - rect_top rect\<rparr>"
  using assms by (simp add: screenToCanvas_def worldToCanvas_def)

theorem screenToCanvas_inverse_witness:
  "vp_zoom \<lparr>vp_x = 30, vp_y = 40, vp_zoom = 2\<rparr> \<noteq> 0
   \<and> screenToCanvas (Some \<lparr>rect_left = 0, rect_top = 0\<rparr>) \<lparr>vp_x = 30, vp_y = 40, vp_zoom = 2\<rparr> 130 100
       = \<lparr>p_x = 50, p_y = 30\<rparr>
   \<and> worldToCanvas \<lparr>vp_x = 30, vp_y = 40, vp_zoom = 2\<rparr> \<lparr>p_x = 50, p_y = 30\<rparr>
       = \<lparr>p_x = 130, p_y = 100\<rparr>"
  using screenToCanvas_inverse [of "\<lparr>vp_x = 30, vp_y = 40, vp_zoom = 2\<rparr>"
      "\<lparr>rect_left = 0, rect_top = 0\<rparr>" 130 100]
  by (simp add: screenToCanvas_def)


section \<open>Zooming with the wheel\<close>

lemma handleWheel_zoom:
  "vp_zoom (viewport (handleWheel (Some rect) cx cy dy s)) =
     max 0.1 (min 5 (vp_zoom (viewport s) * (if dy > 0 then 0.9 else 1.1)))"
  by (simp add: handleWheel_def Let_def)

lemma handleWheel_range:
  "0.1 \<le> vp_zoom (viewport s) \<Longrightarrow> vp_zoom (viewport s) \<le> 5 \<Longrightarrow>
   0.1 \<le> vp_zoom (viewport (handleWheel canvas cx cy dy s)) \<and>
   vp_zoom (viewport (handleWheel canvas cx cy dy s)) \<le> 5"
  by (cases canvas) (simp_all add: handleWheel_def Let_def)

lemma wheelEvents_range:
  "0.1 \<le> vp_zoom (viewport s) \<Longrightarrow> vp_zoom (viewport s) \<le> 5 \<Longrightarrow>
   0.1 \<le> vp_zoom (viewport (wheelEvents evs s)) \<and>
   vp_zoom (viewport (wheelEvents evs s)) \<le> 5"
proof (induction evs arbitrary: s)
  case Nil
  then show ?case by (simp add: wheelEvents_def)
next
  case (Cons ev evs)
  obtain canvas cx cy dy where ev: "ev = (canvas, cx, cy, dy)"
    by (cases ev) auto
  have unfold: "wheelEvents (ev # evs) s = wheelEvents evs (handleWheel canvas cx cy dy s)"
    by (simp add: wheelEvents_def ev)
  from Cons.prems
  have "0.1 \<le> vp_zoom (viewport (handleWheel canvas cx cy dy s)) \<and>
        vp_zoom (viewport (handleWheel canvas cx cy dy s)) \<le> 5"
    by (rule handleWheel_range)
  then show ?case
    using Cons.IH by (simp add: unfold)
qed

lemma handleWheel_fixed:
  assumes "vp_zoom (viewport s) \<noteq> 0"
  shows "worldToCanvas (viewport (handleWheel (Some rect) cx cy dy s))
           (screenToCanvas (Some rect) (viewport s) cx cy) =
         \<lparr>p_x = cx - rect_left rect, p_y = cy - rect_top rect\<rparr>"
  using assms
  by (simp add: handleWheel_def Let_def worldToCanvas_def screenToCanvas_def field_simps)

text \<open>
  C4. A wheel event on the mounted canvas sets the zoom to the old zoom times 0.9
  (\<open>deltaY > 0\<close>) or 1.1 (otherwise), clamped to \<open>[0.1, 5]\<close>; with no canvas the handler
  changes nothing. Starting from a zoom in \<open>[0.1, 5]\<close>, the zoom is in \<open>[0.1, 5]\<close> after
  every event of every wheel sequence. For a nonzero zoom, the world point under the
  cursor before the event is drawn at the cursor's canvas position after it, which is
  where it was drawn before.
\<close>

theorem handleWheel_zoom_to_cursor:
  "vp_zoom (viewport (handleWheel (Some rect) cx cy dy s)) =
     max 0.1 (min 5 (vp_zoom (viewport s) * (if dy > 0 then 0.9 else 1.1)))
   \<and> handleWheel None cx cy dy s = s
   \<and> (0.1 \<le> vp_zoom (viewport s) \<and> vp_zoom (viewport s) \<le> 5 \<longrightarrow>
        (\<forall>n. 0.1 \<le> vp_zoom (viewport (wheelEvents (take n evs) s)) \<and>
             vp_zoom (viewport (wheelEvents (take n evs) s)) \<le> 5))
   \<and> (vp_zoom (viewport s) \<noteq> 0 \<longrightarrow>
        worldToCanvas (viewport (handleWheel (Some rect) cx cy dy s))
          (screenToCanvas (Some rect) (viewport s) cx cy) =
        \<lparr>p_x = cx - rect_left rect, p_y = cy - rect_top rect\<rparr>
        \<and> worldToCanvas (viewport s) (screenToCanvas (Some rect) (viewport s) cx cy) =
        \<lparr>p_x = cx - rect_left rect, p_y = cy - rect_top rect\<rparr>)"
proof (intro conjI impI allI)
  show "vp_zoom (viewport (handleWheel (Some rect) cx cy dy s)) =
     max 0.1 (min 5 (vp_zoom (viewport s) * (if dy > 0 then 0.9 else 1.1)))"
    by (rule handleWheel_zoom)
  show "handleWheel None cx cy dy s = s"
    by (simp add: handleWheel_def Let_def)
next
  fix n
  assume "0.1 \<le> vp_zoom (viewport s) \<and> vp_zoom (viewport s) \<le> 5"
  then have "0.1 \<le> vp_zoom (viewport (wheelEvents (take n evs) s)) \<and>
             vp_zoom (viewport (wheelEvents (take n evs) s)) \<le> 5"
    by (intro wheelEvents_range) simp_all
  then show "0.1 \<le> vp_zoom (viewport (wheelEvents (take n evs) s))"
    and "vp_zoom (viewport (wheelEvents (take n evs) s)) \<le> 5"
    by simp_all
next
  assume z: "vp_zoom (viewport s) \<noteq> 0"
  then show "worldToCanvas (viewport (handleWheel (Some rect) cx cy dy s))
          (screenToCanvas (Some rect) (viewport s) cx cy) =
        \<lparr>p_x = cx - rect_left rect, p_y = cy - rect_top rect\<rparr>"
    by (rule handleWheel_fixed)
  from z show "worldToCanvas (viewport s) (screenToCanvas (Some rect) (viewport s) cx cy) =
        \<lparr>p_x = cx - rect_left rect, p_y = cy - rect_top rect\<rparr>"
    by (simp add: worldToCanvas_def screenToCanvas_def)
qed

theorem handleWheel_zoom_to_cursor_witness:
  "0.1 \<le> vp_zoom (viewport initialState) \<and> vp_zoom (viewport initialState) \<le> 5
   \<and> vp_zoom (viewport initialState) \<noteq> 0
   \<and> vp_zoom (viewport (handleWheel (Some \<lparr>rect_left = 0, rect_top = 0\<rparr>) 200 100 (- 3)
         initialState)) = 1.1
   \<and> 0.1 \<le> vp_zoom (viewport (wheelEvents
         (take 2 [(Some \<lparr>rect_left = 0, rect_top = 0\<rparr>, 200, 100, - 3),
                  (Some \<lparr>rect_left = 0, rect_top = 0\<rparr>, 50, 60, 3)]) initialState))
   \<and> vp_zoom (viewport (wheelEvents
         (take 2 [(Some \<lparr>rect_left = 0, rect_top = 0\<rparr>, 200, 100, - 3),
                  (Some \<lparr>rect_left = 0, rect_top = 0\<rparr>, 50, 60, 3)]) initialState)) \<le> 5
   \<and> worldToCanvas (viewport (handleWheel (Some \<lparr>rect_left = 0, rect_top = 0\<rparr>) 200 100 (- 3)
         initialState))
        (screenToCanvas (Some \<lparr>rect_left = 0, rect_top = 0\<rparr>) (viewport initialState) 200 100)
       = \<lparr>p_x = 200, p_y = 100\<rparr>"
proof -
  let ?rect = "\<lparr>rect_left = 0, rect_top = 0\<rparr>"
  let ?evs = "[(Some ?rect, 200, 100, - 3), (Some ?rect, 50, 60, 3)]"
  have zoom1: "vp_zoom (viewport initialState) = 1"
    by (simp add: initialState_def)
  note t = handleWheel_zoom_to_cursor [of ?rect 200 100 "- 3" initialState ?evs]
  have t1: "vp_zoom (viewport (handleWheel (Some ?rect) 200 100 (- 3) initialState)) = 1.1"
    using t [THEN conjunct1] by (simp add: zoom1)
  have t3: "0.1 \<le> vp_zoom (viewport (wheelEvents (take 2 ?evs) initialState)) \<and>
            vp_zoom (viewport (wheelEvents (take 2 ?evs) initialState)) \<le> 5"
  proof -
    have range: "0.1 \<le> vp_zoom (viewport initialState) \<and> vp_zoom (viewport initialState) \<le> 5"
      by (simp add: zoom1)
    from t [THEN conjunct2, THEN conjunct2, THEN conjunct1, rule_format, OF range, of 2]
    show ?thesis .
  qed
  have t4: "worldToCanvas (viewport (handleWheel (Some ?rect) 200 100 (- 3) initialState))
        (screenToCanvas (Some ?rect) (viewport initialState) 200 100)
       = \<lparr>p_x = 200, p_y = 100\<rparr>"
    using t [THEN conjunct2, THEN conjunct2, THEN conjunct2] by (simp only: zoom1) simp
  show ?thesis
    using t1 t3 t4 by (simp add: zoom1)
qed

section \<open>Hit-testing\<close>

lemma sqrt_le_iff_sq: "0 \<le> r \<Longrightarrow> (sqrt a \<le> r) = (a \<le> r ^ 2)"
  by (metis real_sqrt_le_iff real_sqrt_abs abs_of_nonneg)

text \<open>
  C6. \<open>isPointInElement\<close>: for the types rectangle and sticky-note, the point is inside
  exactly when \<open>x \<le> px \<le> x + width\<close> and \<open>y \<le> py \<le> y + height\<close> (an undefined width
  or height counting as 0), hence never for a box of negative width or height; for the
  type circle, exactly when the Euclidean distance from the centre of the box to the
  point is at most \<open>min(width, height) / 2\<close>; for every other type, never. For the circle
  in the box at (40, 40) of width and height 20, that is of centre (50, 50) and radius
  10, the point (50, 59) is inside and (50, 61) is outside.
\<close>

theorem isPointInElement_cases:
  "(el_type e = ''rectangle'' \<or> el_type e = ''sticky-note'' \<longrightarrow>
      isPointInElement p e =
        (el_x e \<le> p_x p \<and> p_x p \<le> el_x e + num_or (el_width e) 0 \<and>
         el_y e \<le> p_y p \<and> p_y p \<le> el_y e + num_or (el_height e) 0))
   \<and> ((el_type e = ''rectangle'' \<or> el_type e = ''sticky-note'') \<and>
        (num_or (el_width e) 0 < 0 \<or> num_or (el_height e) 0 < 0) \<longrightarrow>
      \<not> isPointInElement p e)
   \<and> (el_type e = ''circle'' \<longrightarrow>
      isPointInElement p e =
        (sqrt ((p_x p - (el_x e + num_or (el_width e) 0 / 2)) ^ 2 +
               (p_y p - (el_y e + num_or (el_height e) 0 / 2)) ^ 2)
         \<le> min (num_or (el_width e) 0) (num_or (el_height e) 0) / 2))
   \<and> (el_type e \<noteq> ''rectangle'' \<and> el_type e \<noteq> ''sticky-note'' \<and> el_type e \<noteq> ''circle'' \<longrightarrow>
      \<not> isPointInElement p e)
   \<and> num_or (Some w) 0 = w \<and> num_or None 0 = 0
   \<and> (el_type e = ''circle'' \<and> el_x e = 40 \<and> el_y e = 40 \<and>
        el_width e = Some 20 \<and> el_height e = Some 20 \<longrightarrow>
      isPointInElement \<lparr>p_x = 50, p_y = 59\<rparr> e \<and> \<not> isPointInElement \<lparr>p_x = 50, p_y = 61\<rparr> e)"
proof -
  have box: "el_type e = ''rectangle'' \<or> el_type e = ''sticky-note'' \<Longrightarrow>
      isPointInElement p e =
        (el_x e \<le> p_x p \<and> p_x p \<le> el_x e + num_or (el_width e) 0 \<and>
         el_y e \<le> p_y p \<and> p_y p \<le> el_y e + num_or (el_height e) 0)"
    by (auto simp add: isPointInElement_def)
  have inverted: "(el_type e = ''rectangle'' \<or> el_type e = ''sticky-note'') \<and>
        (num_or (el_width e) 0 < 0 \<or> num_or (el_height e) 0 < 0) \<Longrightarrow>
      \<not> isPointInElement p e"
    using box by auto
  have min_half: "min (a / 2) (b / 2) = min a b / 2" for a b :: real
    by (simp add: min_def)
  have circ: "el_type e = ''circle'' \<Longrightarrow>
      isPointInElement p e =
        (sqrt ((p_x p - (el_x e + num_or (el_width e) 0 / 2)) ^ 2 +
               (p_y p - (el_y e + num_or (el_height e) 0 / 2)) ^ 2)
         \<le> min (num_or (el_width e) 0) (num_or (el_height e) 0) / 2)"
    by (simp add: isPointInElement_def Let_def min_half)
  have other: "el_type e \<noteq> ''rectangle'' \<and> el_type e \<noteq> ''sticky-note'' \<and>
      el_type e \<noteq> ''circle'' \<Longrightarrow> \<not> isPointInElement p e"
    by (simp add: isPointInElement_def)
  have conc: "el_type e = ''circle'' \<and> el_x e = 40 \<and> el_y e = 40 \<and>
        el_width e = Some 20 \<and> el_height e = Some 20 \<Longrightarrow>
      isPointInElement \<lparr>p_x = 50, p_y = 59\<rparr> e \<and> \<not> isPointInElement \<lparr>p_x = 50, p_y = 61\<rparr> e"
    by (simp add: isPointInElement_def Let_def num_or_def sqrt_le_iff_sq)
  have n1: "num_or (Some w) 0 = w" and n2: "num_or None 0 = 0"
    by (simp_all add: num_or_def)
  show ?thesis
    by (intro conjI impI)
      (rule n1 n2 | erule box inverted circ other conc [THEN conjunct1] conc [THEN conjunct2])+
qed

text \<open>
  The witness takes the elements the drawing gesture itself produces: a circle dragged
  from (40, 40) to (60, 60), a rectangle dragged from (0, 0) to (10, 10), the same
  rectangle dragged to (-10, 10), and a line.
\<close>

theorem isPointInElement_cases_witness:
  "isPointInElement \<lparr>p_x = 50, p_y = 59\<rparr>
     (updateElementWithPoint (createNewElement ''c'' Circle \<lparr>p_x = 40, p_y = 40\<rparr> ''#000000'' 2)
        \<lparr>p_x = 60, p_y = 60\<rparr> [])
   \<and> \<not> isPointInElement \<lparr>p_x = 50, p_y = 61\<rparr>
     (updateElementWithPoint (createNewElement ''c'' Circle \<lparr>p_x = 40, p_y = 40\<rparr> ''#000000'' 2)
        \<lparr>p_x = 60, p_y = 60\<rparr> [])
   \<and> isPointInElement \<lparr>p_x = 5, p_y = 5\<rparr>
     (updateElementWithPoint (createNewElement ''r'' Rectangle \<lparr>p_x = 0, p_y = 0\<rparr> ''#000000'' 2)
        \<lparr>p_x = 10, p_y = 10\<rparr> [])
   \<and> \<not> isPointInElement \<lparr>p_x = - 5, p_y = 5\<rparr>
     (updateElementWithPoint (createNewElement ''r'' Rectangle \<lparr>p_x = 0, p_y = 0\<rparr> ''#000000'' 2)
        \<lparr>p_x = - 10, p_y = 10\<rparr> [])
   \<and> \<not> isPointInElement \<lparr>p_x = 5, p_y = 5\<rparr>
     (updateElementWithPoint (createNewElement ''l'' Line \<lparr>p_x = 0, p_y = 0\<rparr> ''#000000'' 2)
        \<lparr>p_x = 10, p_y = 10\<rparr> [])"
  using
    isPointInElement_cases [of
      "updateElementWithPoint (createNewElement ''c'' Circle \<lparr>p_x = 40, p_y = 40\<rparr> ''#000000'' 2)
        \<lparr>p_x = 60, p_y = 60\<rparr> []" "\<lparr>p_x = 0, p_y = 0\<rparr>" 0]
    isPointInElement_cases [of
      "updateElementWithPoint (createNewElement ''r'' Rectangle \<lparr>p_x = 0, p_y = 0\<rparr> ''#000000'' 2)
        \<lparr>p_x = 10, p_y = 10\<rparr> []" "\<lparr>p_x = 5, p_y = 5\<rparr>" 0]
    isPointInElement_cases [of
      "updateElementWithPoint (createNewElement ''r'' Rectangle \<lparr>p_x = 0, p_y = 0\<rparr> ''#000000'' 2)
        \<lparr>p_x = - 10, p_y = 10\<rparr> []" "\<lparr>p_x = - 5, p_y = 5\<rparr>" 0]
    isPointInElement_cases [of
      "updateElementWithPoint (createNewElement ''l'' Line \<lparr>p_x = 0, p_y = 0\<rparr> ''#000000'' 2)
        \<lparr>p_x = 10, p_y = 10\<rparr> []" "\<lparr>p_x = 5, p_y = 5\<rparr>" 0]
  by (simp add: createNewElement_def updateElementWithPoint_def num_or_def)



section \<open>History\<close>

lemma handleElementsChange_fields:
  "history (handleElementsChange n s) = take (historyIndex s + 1) (history s) @ [n]"
  "historyIndex (handleElementsChange n s) = length (take (historyIndex s + 1) (history s))"
  "elements (handleElementsChange n s) = n"
  by (simp_all add: handleElementsChange_def Let_def)

lemma handleElementsChange_index:
  "historyIndex s < length (history s) \<Longrightarrow>
   historyIndex (handleElementsChange n s) = historyIndex s + 1"
  by (simp add: handleElementsChange_fields)

lemma handleUndo_pos:
  "0 < historyIndex s \<Longrightarrow> historyIndex s \<le> length (history s) \<Longrightarrow>
   handleUndo s =
     Inr (s\<lparr>historyIndex := historyIndex s - 1,
            elements := history s ! (historyIndex s - 1)\<rparr>)"
  by (simp add: handleUndo_def snapshotAt_def Let_def)

lemma handleUndo_zero: "historyIndex s = 0 \<Longrightarrow> handleUndo s = Inr s"
  by (simp add: handleUndo_def)

lemma handleRedo_step:
  "historyIndex s + 1 < length (history s) \<Longrightarrow>
   handleRedo s =
     Inr (s\<lparr>historyIndex := historyIndex s + 1,
            elements := history s ! (historyIndex s + 1)\<rparr>)"
  by (simp add: handleRedo_def snapshotAt_def Let_def)

lemma handleRedo_top:
  "\<not> historyIndex s + 1 < length (history s) \<Longrightarrow> handleRedo s = Inr s"
  by (auto simp add: handleRedo_def)

lemma run_append:
  "run (a @ b) s = (case run a s of Inl e \<Rightarrow> Inl e | Inr s' \<Rightarrow> run b s')"
  by (induction a arbitrary: s) (auto split: sum.splits)

lemma run_commits:
  "historyIndex s < length (history s) \<Longrightarrow>
   \<exists>s'. run (map Commit cs) s = Inr s' \<and>
        history s' = (if cs = [] then history s else take (historyIndex s + 1) (history s) @ cs) \<and>
        historyIndex s' = historyIndex s + length cs \<and>
        elements s' = last (elements s # cs)"
proof (induction cs arbitrary: s)
  case Nil
  then show ?case by simp
next
  case (Cons c cs)
  let ?t = "handleElementsChange c s"
  have idx: "historyIndex ?t = historyIndex s + 1"
    using Cons.prems by (rule handleElementsChange_index)
  have hist: "history ?t = take (historyIndex s + 1) (history s) @ [c]"
    by (rule handleElementsChange_fields)
  have len: "length (history ?t) = historyIndex s + 2"
    using Cons.prems by (simp add: hist)
  have "historyIndex ?t < length (history ?t)"
    by (simp add: idx len)
  from Cons.IH [OF this] obtain s' where
    s': "run (map Commit cs) ?t = Inr s'"
      "history s' = (if cs = [] then history ?t else take (historyIndex ?t + 1) (history ?t) @ cs)"
      "historyIndex s' = historyIndex ?t + length cs"
      "elements s' = last (elements ?t # cs)"
    by blast
  have full: "take (historyIndex ?t + 1) (history ?t) = history ?t"
    by (simp add: idx len)
  have r: "run (map Commit (c # cs)) s = Inr s'"
    using s'(1) by simp
  have "history s' = history ?t @ cs"
  proof (cases "cs = []")
    case True
    with s'(2) show ?thesis by simp
  next
    case False
    with s'(2) have "history s' = take (historyIndex ?t + 1) (history ?t) @ cs" by simp
    then show ?thesis by (simp only: full)
  qed
  then have h: "history s' = take (historyIndex s + 1) (history s) @ (c # cs)"
    by (simp only: hist) simp
  have i: "historyIndex s' = historyIndex s + length (c # cs)"
    using s'(3) by (simp only: idx) simp
  have e: "elements s' = last (elements s # c # cs)"
    using s'(4) by (simp add: handleElementsChange_fields(3))
  from r h i e show ?case by simp
qed

lemma run_undos:
  "historyIndex s = k \<Longrightarrow> k < length (history s) \<Longrightarrow>
   \<exists>s'. run (replicate k Undo) s = Inr s' \<and> historyIndex s' = 0 \<and>
        history s' = history s \<and>
        elements s' = (if k = 0 then elements s else history s ! 0)"
proof (induction k arbitrary: s)
  case 0
  then show ?case by simp
next
  case (Suc k)
  let ?t = "s\<lparr>historyIndex := historyIndex s - 1,
               elements := history s ! (historyIndex s - 1)\<rparr>"
  have u: "handleUndo s = Inr ?t"
    using Suc.prems by (simp add: handleUndo_pos)
  have "historyIndex ?t = k" "k < length (history ?t)"
    using Suc.prems by simp_all
  from Suc.IH [OF this] obtain s' where
    s': "run (replicate k Undo) ?t = Inr s'" "historyIndex s' = 0"
      "history s' = history ?t"
      "elements s' = (if k = 0 then elements ?t else history ?t ! 0)"
    by blast
  show ?case
    using s' Suc.prems by (auto simp add: u)
qed


lemma step_keeps_history_invariant:
  assumes "historyIndex s < length (history s)"
  shows "\<exists>s'. step opn s = Inr s' \<and> historyIndex s' < length (history s') \<and>
           (elements s' = history s' ! historyIndex s' \<or> s' = s \<or>
            (elements s' \<in> set (remotePayloads [opn]) \<and>
             history s' = history s \<and> historyIndex s' = historyIndex s))"
proof (cases opn)
  case (Commit els)
  have "elements (handleElementsChange els s) =
        history (handleElementsChange els s) ! historyIndex (handleElementsChange els s)"
    by (simp add: handleElementsChange_fields nth_append)
  moreover have "historyIndex (handleElementsChange els s) < length (history (handleElementsChange els s))"
    by (simp add: handleElementsChange_fields)
  ultimately show ?thesis
    using Commit by simp
next
  case Undo
  show ?thesis
  proof (cases "historyIndex s > 0")
    case True
    then show ?thesis
      using assms Undo by (simp add: handleUndo_pos)
  next
    case False
    then show ?thesis
      using assms Undo by (simp add: handleUndo_zero)
  qed
next
  case Redo
  show ?thesis
  proof (cases "historyIndex s + 1 < length (history s)")
    case True
    then show ?thesis
      using Redo by (simp add: handleRedo_step)
  next
    case False
    then show ?thesis
      using assms Redo by (simp add: handleRedo_top)
  qed
next
  case (RemoteUpdate els)
  then show ?thesis
    using assms by (simp add: handleCollaborativeElementsUpdate_def)
next
  case (SessionLoad els)
  then show ?thesis
    using assms by (simp add: onElementsLoaded_def)
qed

lemma remotePayloads_Cons:
  "set (remotePayloads (opn # ops)) = set (remotePayloads [opn]) \<union> set (remotePayloads ops)"
  by (cases opn) simp_all

lemma run_keeps_history_invariant:
  assumes "historyIndex s < length (history s)"
    and "elements s = history s ! historyIndex s \<or> elements s \<in> P"
  shows "\<exists>s'. run ops s = Inr s' \<and> historyIndex s' < length (history s') \<and>
           (elements s' = history s' ! historyIndex s' \<or>
            elements s' \<in> P \<union> set (remotePayloads ops))"
  using assms
proof (induction ops arbitrary: s P)
  case Nil
  then show ?case by simp
next
  case (Cons opn ops)
  from step_keeps_history_invariant [OF Cons.prems(1), of opn] obtain t where
    t: "step opn s = Inr t" "historyIndex t < length (history t)"
      "elements t = history t ! historyIndex t \<or> t = s \<or>
       (elements t \<in> set (remotePayloads [opn]) \<and>
        history t = history s \<and> historyIndex t = historyIndex s)"
    by blast
  let ?Q = "P \<union> set (remotePayloads [opn])"
  have "elements t = history t ! historyIndex t \<or> elements t \<in> ?Q"
    using t(3) Cons.prems(2) by auto
  from Cons.IH [OF t(2) this] obtain s' where
    s': "run ops t = Inr s'" "historyIndex s' < length (history s')"
      "elements s' = history s' ! historyIndex s' \<or>
       elements s' \<in> ?Q \<union> set (remotePayloads ops)"
    by blast
  have "elements s' = history s' ! historyIndex s' \<or>
        elements s' \<in> P \<union> set (remotePayloads (opn # ops))"
    using s'(3) by (auto simp add: remotePayloads_Cons [of opn ops])
  with s'(1,2) t(1) show ?case
    by simp
qed

lemma undo_redo_round_trip:
  assumes "0 < historyIndex s" and "historyIndex s < length (history s)"
  shows "\<exists>s2. handleUndo s = Inr s2 \<and> historyIndex s2 = historyIndex s - 1 \<and>
              history s2 = history s \<and>
              elements s2 = history s ! (historyIndex s - 1) \<and>
              handleRedo s2 = Inr (s\<lparr>elements := history s ! historyIndex s\<rparr>)"
proof -
  let ?s2 = "s\<lparr>historyIndex := historyIndex s - 1,
               elements := history s ! (historyIndex s - 1)\<rparr>"
  have u: "handleUndo s = Inr ?s2"
    using assms by (simp add: handleUndo_pos)
  have "handleRedo ?s2 =
          Inr (?s2\<lparr>historyIndex := historyIndex ?s2 + 1,
                    elements := history ?s2 ! (historyIndex ?s2 + 1)\<rparr>)"
    using assms by (intro handleRedo_step) simp
  also have "?s2\<lparr>historyIndex := historyIndex ?s2 + 1,
                  elements := history ?s2 ! (historyIndex ?s2 + 1)\<rparr> =
             s\<lparr>elements := history s ! historyIndex s\<rparr>"
    using assms by simp
  finally have "handleRedo ?s2 = Inr (s\<lparr>elements := history s ! historyIndex s\<rparr>)" .
  with u show ?thesis
    by simp
qed

text \<open>
  C2 (as the code has it). The history starts as the single empty snapshot at index 0.
  A commit truncates the snapshots to the positions up to the current index, appends
  the new snapshot and moves the index to the last position. Undo with a positive index
  decrements the index and displays the snapshot there, and changes nothing at index
  0; redo below the last position increments the index and displays the snapshot
  there, and changes nothing at the last position. After any \<open>n\<close> commits from the
  start, \<open>n\<close> undos display the empty collection. An undo that takes effect, followed
  by redo, displays the snapshot at the index the undo started from: that is the
  collection displayed before the undo whenever the display agreed with the snapshot,
  as it does in every state reached by local commits, undos, redos and session loads,
  where undo followed by redo gives back the state itself. After commit A, commit B,
  undo, commit C, redo changes nothing and C is displayed.
\<close>

theorem history_linear_stack:
  "history initialState = [[]] \<and> historyIndex initialState = 0 \<and> elements initialState = []
   \<and> history (handleElementsChange new s) = take (historyIndex s + 1) (history s) @ [new]
   \<and> historyIndex (handleElementsChange new s) = length (history (handleElementsChange new s)) - 1
   \<and> elements (handleElementsChange new s) = new
   \<and> (historyIndex s < length (history s) \<longrightarrow>
        handleUndo s =
          Inr (if historyIndex s > 0
               then s\<lparr>historyIndex := historyIndex s - 1,
                      elements := history s ! (historyIndex s - 1)\<rparr>
               else s)
        \<and> handleRedo s =
          Inr (if historyIndex s < length (history s) - 1
               then s\<lparr>historyIndex := historyIndex s + 1,
                      elements := history s ! (historyIndex s + 1)\<rparr>
               else s))
   \<and> (\<exists>s'. run (map Commit cs @ replicate (length cs) Undo) initialState = Inr s' \<and>
             elements s' = [] \<and> historyIndex s' = 0)
   \<and> (\<exists>s1 s2 s3. run (map Commit cs) initialState = Inr s1 \<and> handleUndo s1 = Inr s2 \<and>
             handleRedo s2 = Inr s3 \<and> elements s3 = elements s1 \<and> s3 = s1)
   \<and> (0 < historyIndex s \<and> historyIndex s < length (history s) \<longrightarrow>
        (\<exists>s2. handleUndo s = Inr s2 \<and> historyIndex s2 = historyIndex s - 1 \<and>
              elements s2 = history s ! (historyIndex s - 1) \<and>
              handleRedo s2 = Inr (s\<lparr>elements := history s ! historyIndex s\<rparr>)))
   \<and> (0 < historyIndex s \<and> historyIndex s < length (history s) \<and>
        elements s = history s ! historyIndex s \<longrightarrow>
        (\<exists>s2. handleUndo s = Inr s2 \<and> handleRedo s2 = Inr s))
   \<and> (remotePayloads ops = [] \<longrightarrow>
        (\<exists>s1. run ops initialState = Inr s1 \<and> historyIndex s1 < length (history s1) \<and>
              elements s1 = history s1 ! historyIndex s1 \<and>
              (0 < historyIndex s1 \<longrightarrow>
                 (\<exists>s2. handleUndo s1 = Inr s2 \<and> handleRedo s2 = Inr s1))))
   \<and> (historyIndex s < length (history s) \<longrightarrow>
        (\<exists>s'. run [Commit A, Commit B, Undo, Commit C] s = Inr s' \<and>
              handleRedo s' = Inr s' \<and> elements s' = C \<and>
              run [Commit A, Commit B, Undo, Commit C, Redo] s = Inr s' \<and>
              history s' = take (historyIndex s + 1) (history s) @ [A, C]))"
proof (intro conjI impI)
  show "history initialState = [[]]" "historyIndex initialState = 0" "elements initialState = []"
    by (simp_all add: initialState_def)
  show "history (handleElementsChange new s) = take (historyIndex s + 1) (history s) @ [new]"
    "elements (handleElementsChange new s) = new"
    by (rule handleElementsChange_fields)+
  show "historyIndex (handleElementsChange new s) = length (history (handleElementsChange new s)) - 1"
    by (simp add: handleElementsChange_fields)
next
  assume inv: "historyIndex s < length (history s)"
  show "handleUndo s =
          Inr (if historyIndex s > 0
               then s\<lparr>historyIndex := historyIndex s - 1,
                      elements := history s ! (historyIndex s - 1)\<rparr>
               else s)"
    using inv by (simp add: handleUndo_pos handleUndo_zero)
  show "handleRedo s =
          Inr (if historyIndex s < length (history s) - 1
               then s\<lparr>historyIndex := historyIndex s + 1,
                      elements := history s ! (historyIndex s + 1)\<rparr>
               else s)"
    using inv by (simp add: handleRedo_step handleRedo_top)
next
  have inv0: "historyIndex initialState < length (history initialState)"
    by (simp add: initialState_def)
  from run_commits [OF inv0, of cs] obtain s1 where
    s1: "run (map Commit cs) initialState = Inr s1"
      "history s1 = (if cs = [] then history initialState
                     else take (historyIndex initialState + 1) (history initialState) @ cs)"
      "historyIndex s1 = historyIndex initialState + length cs"
      "elements s1 = last (elements initialState # cs)"
    by blast
  have h1: "history s1 = [] # cs"
    using s1(2) by (simp add: initialState_def)
  have i1: "historyIndex s1 = length cs"
    using s1(3) by (simp add: initialState_def)
  have e1: "elements s1 = last ([] # cs)"
    using s1(4) by (simp add: initialState_def)
  have "length cs < length (history s1)"
    by (simp add: h1)
  from run_undos [OF i1 this] obtain s' where
    s': "run (replicate (length cs) Undo) s1 = Inr s'" "historyIndex s' = 0"
      "elements s' = (if length cs = 0 then elements s1 else history s1 ! 0)"
    by blast
  have "elements s' = []"
    using s'(3) by (simp add: h1 e1)
  then show "\<exists>s'. run (map Commit cs @ replicate (length cs) Undo) initialState = Inr s' \<and>
             elements s' = [] \<and> historyIndex s' = 0"
    using s1(1) s'(1) s'(2) by (simp add: run_append)
  show "\<exists>s1 s2 s3. run (map Commit cs) initialState = Inr s1 \<and> handleUndo s1 = Inr s2 \<and>
             handleRedo s2 = Inr s3 \<and> elements s3 = elements s1 \<and> s3 = s1"
  proof (cases "cs = []")
    case True
    then have "handleUndo s1 = Inr s1" "handleRedo s1 = Inr s1"
      using h1 i1 by (simp_all add: handleUndo_zero handleRedo_top)
    with s1(1) show ?thesis by blast
  next
    case False
    have pos: "0 < historyIndex s1" and inv1: "historyIndex s1 < length (history s1)"
      using False by (simp_all add: h1 i1)
    have cur: "history s1 ! historyIndex s1 = elements s1"
      using False by (simp add: h1 i1 e1 last_conv_nth)
    from undo_redo_round_trip [OF pos inv1] obtain s2 where
      "handleUndo s1 = Inr s2"
      "handleRedo s2 = Inr (s1\<lparr>elements := history s1 ! historyIndex s1\<rparr>)"
      by blast
    then have "handleUndo s1 = Inr s2" "handleRedo s2 = Inr s1"
      by (simp_all add: cur)
    with s1(1) show ?thesis by blast
  qed
next
  assume "0 < historyIndex s \<and> historyIndex s < length (history s)"
  then have "0 < historyIndex s" and "historyIndex s < length (history s)"
    by simp_all
  from undo_redo_round_trip [OF this]
  show "\<exists>s2. handleUndo s = Inr s2 \<and> historyIndex s2 = historyIndex s - 1 \<and>
              elements s2 = history s ! (historyIndex s - 1) \<and>
              handleRedo s2 = Inr (s\<lparr>elements := history s ! historyIndex s\<rparr>)"
    by blast
next
  assume a: "0 < historyIndex s \<and> historyIndex s < length (history s) \<and>
        elements s = history s ! historyIndex s"
  then have "0 < historyIndex s" and "historyIndex s < length (history s)"
    by simp_all
  from undo_redo_round_trip [OF this] obtain s2 where
    "handleUndo s = Inr s2"
    "handleRedo s2 = Inr (s\<lparr>elements := history s ! historyIndex s\<rparr>)"
    by blast
  moreover have "s\<lparr>elements := history s ! historyIndex s\<rparr> = s"
    using a by simp
  ultimately show "\<exists>s2. handleUndo s = Inr s2 \<and> handleRedo s2 = Inr s"
    by auto
next
  assume local: "remotePayloads ops = []"
  have "historyIndex initialState < length (history initialState)"
    and "elements initialState = history initialState ! historyIndex initialState
         \<or> elements initialState \<in> {}"
    by (simp_all add: initialState_def)
  from run_keeps_history_invariant [OF this, of ops] obtain s1 where
    s1: "run ops initialState = Inr s1" "historyIndex s1 < length (history s1)"
      "elements s1 = history s1 ! historyIndex s1"
    using local by auto
  have rt: "0 < historyIndex s1 \<longrightarrow> (\<exists>s2. handleUndo s1 = Inr s2 \<and> handleRedo s2 = Inr s1)"
  proof
    assume pos: "0 < historyIndex s1"
    from undo_redo_round_trip [OF pos s1(2)] obtain s2 where
      "handleUndo s1 = Inr s2"
      "handleRedo s2 = Inr (s1\<lparr>elements := history s1 ! historyIndex s1\<rparr>)"
      by blast
    moreover have "s1\<lparr>elements := history s1 ! historyIndex s1\<rparr> = s1"
      using s1(3) by simp
    ultimately show "\<exists>s2. handleUndo s1 = Inr s2 \<and> handleRedo s2 = Inr s1"
      by auto
  qed
  from s1 rt show "\<exists>s1. run ops initialState = Inr s1 \<and> historyIndex s1 < length (history s1) \<and>
              elements s1 = history s1 ! historyIndex s1 \<and>
              (0 < historyIndex s1 \<longrightarrow>
                 (\<exists>s2. handleUndo s1 = Inr s2 \<and> handleRedo s2 = Inr s1))"
    by (intro exI [of _ s1] conjI)
next
  assume inv: "historyIndex s < length (history s)"
  let ?h = "take (historyIndex s + 1) (history s)"
  let ?k = "historyIndex s"
  have lenh: "length ?h = ?k + 1"
    using inv by simp
  let ?a = "handleElementsChange A s"
  have ha: "history ?a = ?h @ [A]" and ia: "historyIndex ?a = ?k + 1"
    using inv by (simp_all add: handleElementsChange_fields)
  let ?b = "handleElementsChange B ?a"
  have hb: "history ?b = ?h @ [A, B]" and ib: "historyIndex ?b = ?k + 2"
    using lenh by (simp_all add: handleElementsChange_fields ha ia)
  let ?u = "?b\<lparr>historyIndex := historyIndex ?b - 1,
                elements := history ?b ! (historyIndex ?b - 1)\<rparr>"
  have u: "handleUndo ?b = Inr ?u"
    using lenh by (intro handleUndo_pos) (simp_all add: hb ib)
  have hu: "history ?u = ?h @ [A, B]" and iu: "historyIndex ?u = ?k + 1"
    by (simp_all add: hb ib)
  let ?c = "handleElementsChange C ?u"
  have hc: "history ?c = ?h @ [A, C]" and ic: "historyIndex ?c = ?k + 2"
    and ec: "elements ?c = C"
    using lenh by (simp_all add: handleElementsChange_fields hu iu)
  have "\<not> historyIndex ?c + 1 < length (history ?c)"
    unfolding hc ic using lenh by simp
  then have r: "handleRedo ?c = Inr ?c"
    by (rule handleRedo_top)
  have run4: "run [Commit A, Commit B, Undo, Commit C] s = Inr ?c"
    by (simp add: u)
  have "run ([Commit A, Commit B, Undo, Commit C] @ [Redo]) s = run [Redo] ?c"
    by (simp only: run_append run4 sum.case)
  also have "\<dots> = Inr ?c"
    by (simp only: run.simps step.simps r sum.case)
  finally have run5: "run [Commit A, Commit B, Undo, Commit C, Redo] s = Inr ?c"
    by simp
  show "\<exists>s'. run [Commit A, Commit B, Undo, Commit C] s = Inr s' \<and>
              handleRedo s' = Inr s' \<and> elements s' = C \<and>
              run [Commit A, Commit B, Undo, Commit C, Redo] s = Inr s' \<and>
              history s' = take (historyIndex s + 1) (history s) @ [A, C]"
    using run4 run5 r ec hc by blast
qed

text \<open>
  The witness: three commits and an undo leave the index in the middle of the stack;
  from there undo displays the first commit and redo gives the state back.
\<close>

theorem history_linear_stack_witness:
  "historyIndex initialState < length (history initialState)
   \<and> handleUndo initialState = Inr initialState
   \<and> handleRedo initialState = Inr initialState
   \<and> (\<exists>s'. run (map Commit [[createNewElement ''a'' Rectangle \<lparr>p_x = 0, p_y = 0\<rparr> ''#000000'' 2],
                             [createNewElement ''b'' Circle \<lparr>p_x = 5, p_y = 5\<rparr> ''#000000'' 2]] @
                 replicate (length [[createNewElement ''a'' Rectangle \<lparr>p_x = 0, p_y = 0\<rparr> ''#000000'' 2],
                                    [createNewElement ''b'' Circle \<lparr>p_x = 5, p_y = 5\<rparr> ''#000000'' 2]]) Undo)
               initialState = Inr s' \<and>
             elements s' = [] \<and> historyIndex s' = 0)
   \<and> remotePayloads
        [Commit [createNewElement ''a'' Rectangle \<lparr>p_x = 0, p_y = 0\<rparr> ''#000000'' 2],
         Commit [createNewElement ''b'' Circle \<lparr>p_x = 5, p_y = 5\<rparr> ''#000000'' 2],
         Commit [createNewElement ''c'' Line \<lparr>p_x = 9, p_y = 9\<rparr> ''#000000'' 2], Undo] = []
   \<and> (\<exists>s1 s2. run [Commit [createNewElement ''a'' Rectangle \<lparr>p_x = 0, p_y = 0\<rparr> ''#000000'' 2],
                      Commit [createNewElement ''b'' Circle \<lparr>p_x = 5, p_y = 5\<rparr> ''#000000'' 2],
                      Commit [createNewElement ''c'' Line \<lparr>p_x = 9, p_y = 9\<rparr> ''#000000'' 2], Undo]
                  initialState = Inr s1 \<and>
                historyIndex s1 = 2 \<and> length (history s1) = 4 \<and>
                elements s1 = [createNewElement ''b'' Circle \<lparr>p_x = 5, p_y = 5\<rparr> ''#000000'' 2] \<and>
                handleUndo s1 = Inr s2 \<and>
                elements s2 = [createNewElement ''a'' Rectangle \<lparr>p_x = 0, p_y = 0\<rparr> ''#000000'' 2] \<and>
                handleRedo s2 = Inr s1)
   \<and> (\<exists>s'. run [Commit [createNewElement ''a'' Rectangle \<lparr>p_x = 0, p_y = 0\<rparr> ''#000000'' 2],
                   Commit [createNewElement ''b'' Circle \<lparr>p_x = 5, p_y = 5\<rparr> ''#000000'' 2],
                   Undo,
                   Commit [createNewElement ''c'' Line \<lparr>p_x = 9, p_y = 9\<rparr> ''#000000'' 2]]
               initialState = Inr s' \<and>
             handleRedo s' = Inr s' \<and>
             elements s' = [createNewElement ''c'' Line \<lparr>p_x = 9, p_y = 9\<rparr> ''#000000'' 2] \<and>
             history s' =
               [[], [createNewElement ''a'' Rectangle \<lparr>p_x = 0, p_y = 0\<rparr> ''#000000'' 2],
                [createNewElement ''c'' Line \<lparr>p_x = 9, p_y = 9\<rparr> ''#000000'' 2]])"
proof -
  let ?A = "[createNewElement ''a'' Rectangle \<lparr>p_x = 0, p_y = 0\<rparr> ''#000000'' 2]"
  let ?B = "[createNewElement ''b'' Circle \<lparr>p_x = 5, p_y = 5\<rparr> ''#000000'' 2]"
  let ?C = "[createNewElement ''c'' Line \<lparr>p_x = 9, p_y = 9\<rparr> ''#000000'' 2]"
  let ?ops = "[Commit ?A, Commit ?B, Commit ?C, Undo]"
  have h0: "history initialState = [[]]" and i0: "historyIndex initialState = 0"
    by (simp_all add: initialState_def)
  have inv: "historyIndex initialState < length (history initialState)"
    by (simp add: h0 i0)
  note t = history_linear_stack [where s = initialState and new = "[]" and cs = "[?A, ?B]"
      and A = ?A and B = ?B and C = ?C and ops = ?ops]
  from t inv have undo_redo:
    "handleUndo initialState = Inr initialState \<and> handleRedo initialState = Inr initialState"
    by (simp add: h0 i0)
  from t have undos:
    "\<exists>s'. run (map Commit [?A, ?B] @ replicate (length [?A, ?B]) Undo) initialState = Inr s'
          \<and> elements s' = [] \<and> historyIndex s' = 0"
    by blast
  from t inv have
    "\<exists>s'. run [Commit ?A, Commit ?B, Undo, Commit ?C] initialState = Inr s' \<and>
          handleRedo s' = Inr s' \<and> elements s' = ?C \<and>
          run [Commit ?A, Commit ?B, Undo, Commit ?C, Redo] initialState = Inr s' \<and>
          history s' = take (historyIndex initialState + 1) (history initialState) @ [?A, ?C]"
    by blast
  then have branch:
    "\<exists>s'. run [Commit ?A, Commit ?B, Undo, Commit ?C] initialState = Inr s' \<and>
          handleRedo s' = Inr s' \<and> elements s' = ?C \<and> history s' = [[], ?A, ?C]"
    by (auto simp add: h0 i0)
  have local: "remotePayloads ?ops = []"
    by simp
  let ?c = "handleElementsChange ?C (handleElementsChange ?B (handleElementsChange ?A initialState))"
  have hc: "history ?c = [[], ?A, ?B, ?C]" and ic: "historyIndex ?c = 3"
    by (simp_all add: handleElementsChange_fields h0 i0)
  let ?x = "?c\<lparr>historyIndex := historyIndex ?c - 1,
                elements := history ?c ! (historyIndex ?c - 1)\<rparr>"
  have "handleUndo ?c = Inr ?x"
    by (intro handleUndo_pos) (simp_all add: hc ic)
  then have reach: "run ?ops initialState = Inr ?x"
    by simp
  have hx: "history ?x = [[], ?A, ?B, ?C]" and ix: "historyIndex ?x = 2"
    and ex: "elements ?x = ?B"
    by (simp_all add: hc ic)
  have mid: "0 < historyIndex ?x \<and> historyIndex ?x < length (history ?x) \<and>
             elements ?x = history ?x ! historyIndex ?x"
    unfolding hx ix ex by simp
  have mid': "0 < historyIndex ?x \<and> historyIndex ?x < length (history ?x)"
    using mid by simp
  from history_linear_stack [where s = ?x, THEN conjunct2, THEN conjunct2, THEN conjunct2,
      THEN conjunct2, THEN conjunct2, THEN conjunct2, THEN conjunct2, THEN conjunct2,
      THEN conjunct2, THEN conjunct1, THEN mp, OF mid']
  obtain s2 where s2: "handleUndo ?x = Inr s2" "elements s2 = history ?x ! (historyIndex ?x - 1)"
    "handleRedo s2 = Inr (?x\<lparr>elements := history ?x ! historyIndex ?x\<rparr>)"
    by blast
  have "elements s2 = ?A"
    using s2(2) unfolding hx ix by simp
  moreover have "?x\<lparr>elements := history ?x ! historyIndex ?x\<rparr> = ?x"
    using mid by simp
  ultimately have round:
    "\<exists>s1 s2. run ?ops initialState = Inr s1 \<and> historyIndex s1 = 2 \<and> length (history s1) = 4 \<and>
       elements s1 = ?B \<and> handleUndo s1 = Inr s2 \<and> elements s2 = ?A \<and> handleRedo s2 = Inr s1"
    using reach ix ex hx s2(1,3)
    by (intro exI [of _ ?x] exI [of _ s2]) simp
  from inv undo_redo undos local round branch show ?thesis
    by blast
qed

text \<open>
  The claim as stated fails for the round trip in two places. After a local commit and
  a remote elements-update, which replaces the display and bypasses the history, undo
  followed by redo displays the committed snapshot, not the remote collection displayed
  before the undo. And at index 0 with a redo state present (a commit followed by an
  undo), undo changes nothing and the redo after it displays the commit, not the empty
  collection displayed before the undo.
\<close>

theorem history_linear_stack_counterexample:
  "run [Commit [createNewElement ''a'' Rectangle \<lparr>p_x = 0, p_y = 0\<rparr> ''#000000'' 2],
        RemoteUpdate [createNewElement ''b'' Circle \<lparr>p_x = 5, p_y = 5\<rparr> ''#000000'' 2]] initialState =
     Inr (handleCollaborativeElementsUpdate [createNewElement ''b'' Circle \<lparr>p_x = 5, p_y = 5\<rparr> ''#000000'' 2]
            (handleElementsChange [createNewElement ''a'' Rectangle \<lparr>p_x = 0, p_y = 0\<rparr> ''#000000'' 2] initialState))
   \<and> elements (handleCollaborativeElementsUpdate [createNewElement ''b'' Circle \<lparr>p_x = 5, p_y = 5\<rparr> ''#000000'' 2]
            (handleElementsChange [createNewElement ''a'' Rectangle \<lparr>p_x = 0, p_y = 0\<rparr> ''#000000'' 2] initialState)) =
       [createNewElement ''b'' Circle \<lparr>p_x = 5, p_y = 5\<rparr> ''#000000'' 2]
   \<and> handleUndo (handleCollaborativeElementsUpdate [createNewElement ''b'' Circle \<lparr>p_x = 5, p_y = 5\<rparr> ''#000000'' 2]
            (handleElementsChange [createNewElement ''a'' Rectangle \<lparr>p_x = 0, p_y = 0\<rparr> ''#000000'' 2] initialState)) =
       Inr ((handleElementsChange [createNewElement ''a'' Rectangle \<lparr>p_x = 0, p_y = 0\<rparr> ''#000000'' 2] initialState)
              \<lparr>historyIndex := 0, elements := []\<rparr>)
   \<and> handleRedo ((handleElementsChange [createNewElement ''a'' Rectangle \<lparr>p_x = 0, p_y = 0\<rparr> ''#000000'' 2] initialState)
              \<lparr>historyIndex := 0, elements := []\<rparr>) =
       Inr (handleElementsChange [createNewElement ''a'' Rectangle \<lparr>p_x = 0, p_y = 0\<rparr> ''#000000'' 2] initialState)
   \<and> elements (handleElementsChange [createNewElement ''a'' Rectangle \<lparr>p_x = 0, p_y = 0\<rparr> ''#000000'' 2] initialState) =
       [createNewElement ''a'' Rectangle \<lparr>p_x = 0, p_y = 0\<rparr> ''#000000'' 2]
   \<and> [createNewElement ''a'' Rectangle \<lparr>p_x = 0, p_y = 0\<rparr> ''#000000'' 2] \<noteq>
       [createNewElement ''b'' Circle \<lparr>p_x = 5, p_y = 5\<rparr> ''#000000'' 2]
   \<and> run [Commit [createNewElement ''a'' Rectangle \<lparr>p_x = 0, p_y = 0\<rparr> ''#000000'' 2], Undo] initialState =
       Inr ((handleElementsChange [createNewElement ''a'' Rectangle \<lparr>p_x = 0, p_y = 0\<rparr> ''#000000'' 2] initialState)
              \<lparr>historyIndex := 0, elements := []\<rparr>)
   \<and> handleUndo ((handleElementsChange [createNewElement ''a'' Rectangle \<lparr>p_x = 0, p_y = 0\<rparr> ''#000000'' 2] initialState)
              \<lparr>historyIndex := 0, elements := []\<rparr>) =
       Inr ((handleElementsChange [createNewElement ''a'' Rectangle \<lparr>p_x = 0, p_y = 0\<rparr> ''#000000'' 2] initialState)
              \<lparr>historyIndex := 0, elements := []\<rparr>)
   \<and> elements ((handleElementsChange [createNewElement ''a'' Rectangle \<lparr>p_x = 0, p_y = 0\<rparr> ''#000000'' 2] initialState)
              \<lparr>historyIndex := 0, elements := []\<rparr>) = []
   \<and> [createNewElement ''a'' Rectangle \<lparr>p_x = 0, p_y = 0\<rparr> ''#000000'' 2] \<noteq> []"
  by (simp add: handleCollaborativeElementsUpdate_def handleElementsChange_def handleUndo_def
      handleRedo_def snapshotAt_def initialState_def createNewElement_def)


section \<open>The history invariant\<close>

lemma step_is_sync_noop_or_remote:
  assumes "historyIndex s < length (history s)"
  shows "\<exists>s'. step opn s = Inr s' \<and> historyIndex s' < length (history s') \<and>
           (elements s' = history s' ! historyIndex s' \<or> s' = s \<or>
            (\<exists>r. opn = RemoteUpdate r \<and> s' = s\<lparr>elements := r\<rparr>))"
proof (cases opn)
  case (Commit els)
  have "elements (handleElementsChange els s) =
        history (handleElementsChange els s) ! historyIndex (handleElementsChange els s)"
    by (simp add: handleElementsChange_fields nth_append)
  moreover have "historyIndex (handleElementsChange els s) < length (history (handleElementsChange els s))"
    by (simp add: handleElementsChange_fields)
  ultimately show ?thesis
    using Commit by simp
next
  case Undo
  show ?thesis
  proof (cases "historyIndex s > 0")
    case True
    then show ?thesis
      using assms Undo by (simp add: handleUndo_pos)
  next
    case False
    then show ?thesis
      using assms Undo by (simp add: handleUndo_zero)
  qed
next
  case Redo
  show ?thesis
  proof (cases "historyIndex s + 1 < length (history s)")
    case True
    then show ?thesis
      using Redo by (simp add: handleRedo_step)
  next
    case False
    then show ?thesis
      using assms Redo by (simp add: handleRedo_top)
  qed
next
  case (RemoteUpdate els)
  then show ?thesis
    using assms by (simp add: handleCollaborativeElementsUpdate_def)
next
  case (SessionLoad els)
  then show ?thesis
    using assms by (simp add: onElementsLoaded_def)
qed

lemma run_snoc:
  "run (ops @ [opn]) s = (case run ops s of Inl e \<Rightarrow> Inl e | Inr s' \<Rightarrow> step opn s')"
  by (simp add: run_append split: sum.splits)

text \<open>
  The display of a reachable state: the snapshot at the index, or the payload of a
  remote update after which no operation of the sequence changed the state.
\<close>

lemma run_display:
  "\<exists>s. run ops initialState = Inr s \<and> historyIndex s < length (history s) \<and>
       (elements s = history s ! historyIndex s \<or>
        (\<exists>pre r post. ops = pre @ RemoteUpdate r # post \<and>
           run (pre @ [RemoteUpdate r]) initialState = Inr s \<and> elements s = r \<and>
           (\<forall>opn \<in> set post. step opn s = Inr s)))"
proof (induction ops rule: rev_induct)
  case Nil
  show ?case
    by (simp add: initialState_def)
next
  case (snoc opn ops)
  then obtain s where s: "run ops initialState = Inr s" "historyIndex s < length (history s)"
    and disp: "elements s = history s ! historyIndex s \<or>
        (\<exists>pre r post. ops = pre @ RemoteUpdate r # post \<and>
           run (pre @ [RemoteUpdate r]) initialState = Inr s \<and> elements s = r \<and>
           (\<forall>opn \<in> set post. step opn s = Inr s))"
    by blast
  from step_is_sync_noop_or_remote [OF s(2), of opn] obtain s' where
    s': "step opn s = Inr s'" "historyIndex s' < length (history s')"
    and eff: "elements s' = history s' ! historyIndex s' \<or> s' = s \<or>
            (\<exists>r. opn = RemoteUpdate r \<and> s' = s\<lparr>elements := r\<rparr>)"
    by blast
  have r: "run (ops @ [opn]) initialState = Inr s'"
    by (simp add: run_snoc s(1) s'(1))
  let ?P = "\<lambda>t. elements t = history t ! historyIndex t \<or>
        (\<exists>pre r post. ops @ [opn] = pre @ RemoteUpdate r # post \<and>
           run (pre @ [RemoteUpdate r]) initialState = Inr t \<and> elements t = r \<and>
           (\<forall>opn \<in> set post. step opn t = Inr t))"
  from eff have "?P s'"
  proof (elim disjE exE conjE)
    assume "elements s' = history s' ! historyIndex s'"
    then show ?thesis by simp
  next
    assume same: "s' = s"
    from disp show ?thesis
    proof (elim disjE exE conjE)
      assume "elements s = history s ! historyIndex s"
      then show ?thesis by (simp add: same)
    next
      fix pre r post
      assume d: "ops = pre @ RemoteUpdate r # post"
        "run (pre @ [RemoteUpdate r]) initialState = Inr s" "elements s = r"
        "\<forall>opn \<in> set post. step opn s = Inr s"
      have "ops @ [opn] = pre @ RemoteUpdate r # (post @ [opn])"
        by (simp add: d(1))
      moreover have "\<forall>o' \<in> set (post @ [opn]). step o' s = Inr s"
        using d(4) s'(1) same by simp
      ultimately show ?thesis
        using d(2,3) unfolding same by blast
    qed
  next
    fix r
    assume rem: "opn = RemoteUpdate r" "s' = s\<lparr>elements := r\<rparr>"
    have "ops @ [opn] = ops @ RemoteUpdate r # []"
      by (simp add: rem(1))
    moreover have "run (ops @ [RemoteUpdate r]) initialState = Inr s'"
      using r rem(1) by simp
    moreover have "elements s' = r"
      by (simp add: rem(2))
    moreover have "\<forall>o' \<in> set []. step o' s' = Inr s'"
      by simp
    ultimately show ?thesis
      by blast
  qed
  with r s'(2) show ?case
    by blast
qed

text \<open>
  C9 (as the code has it). In every state reached from the initial one by any sequence
  of local commits, undos, redos, remote elements-updates and session loads, no
  operation reads a snapshot outside the sequence and \<open>0 \<le> historyIndex < length\<close>
  holds. From such a state a remote elements-update replaces the displayed collection
  by its payload and leaves the snapshots and the index as they are; a local commit,
  an undo at a positive index, a redo below the last position and the load of a
  non-empty session leave the displayed collection equal to \<open>history[historyIndex]\<close>;
  an undo at index 0, a redo at the last position and the load of an empty session
  change nothing. So the displayed collection equals \<open>history[historyIndex]\<close> in every
  reachable state, except that it is the payload of a remote elements-update when no
  operation after that update changed the state; in particular the two are equal
  after every sequence without remote updates.
\<close>

theorem history_invariant_reachable:
  "\<exists>s. run ops initialState = Inr s
       \<and> historyIndex s < length (history s)
       \<and> (elements s = history s ! historyIndex s \<or>
          (\<exists>pre r post. ops = pre @ RemoteUpdate r # post \<and>
             run (pre @ [RemoteUpdate r]) initialState = Inr s \<and> elements s = r \<and>
             (\<forall>opn \<in> set post. step opn s = Inr s)))
       \<and> (remotePayloads ops = [] \<longrightarrow> elements s = history s ! historyIndex s)
       \<and> step (RemoteUpdate els) s = Inr (s\<lparr>elements := els\<rparr>)
       \<and> (\<exists>t. step (Commit els) s = Inr t \<and> elements t = els \<and>
              historyIndex t < length (history t) \<and> history t ! historyIndex t = els)
       \<and> (0 < historyIndex s \<longrightarrow>
            (\<exists>t. step Undo s = Inr t \<and> history t = history s \<and>
                 historyIndex t = historyIndex s - 1 \<and>
                 elements t = history t ! historyIndex t))
       \<and> (historyIndex s = 0 \<longrightarrow> step Undo s = Inr s)
       \<and> (historyIndex s + 1 < length (history s) \<longrightarrow>
            (\<exists>t. step Redo s = Inr t \<and> history t = history s \<and>
                 historyIndex t = historyIndex s + 1 \<and>
                 elements t = history t ! historyIndex t))
       \<and> (\<not> historyIndex s + 1 < length (history s) \<longrightarrow> step Redo s = Inr s)
       \<and> (els \<noteq> [] \<longrightarrow>
            (\<exists>t. step (SessionLoad els) s = Inr t \<and> history t = [[], els] \<and>
                 historyIndex t = 1 \<and> elements t = els))
       \<and> step (SessionLoad []) s = Inr s"
proof -
  from run_display [of ops] obtain s where
    s: "run ops initialState = Inr s" "historyIndex s < length (history s)"
    and disp: "elements s = history s ! historyIndex s \<or>
          (\<exists>pre r post. ops = pre @ RemoteUpdate r # post \<and>
             run (pre @ [RemoteUpdate r]) initialState = Inr s \<and> elements s = r \<and>
             (\<forall>opn \<in> set post. step opn s = Inr s))"
    by blast
  have "historyIndex initialState < length (history initialState)"
    and "elements initialState = history initialState ! historyIndex initialState
         \<or> elements initialState \<in> {}"
    by (simp_all add: initialState_def)
  from run_keeps_history_invariant [OF this, of ops] s(1)
  have local: "remotePayloads ops = [] \<longrightarrow> elements s = history s ! historyIndex s"
    by auto
  have remote: "step (RemoteUpdate els) s = Inr (s\<lparr>elements := els\<rparr>)"
    by (simp add: handleCollaborativeElementsUpdate_def)
  have commit: "\<exists>t. step (Commit els) s = Inr t \<and> elements t = els \<and>
              historyIndex t < length (history t) \<and> history t ! historyIndex t = els"
    by (simp add: handleElementsChange_fields nth_append)
  have undo: "0 < historyIndex s \<longrightarrow>
            (\<exists>t. step Undo s = Inr t \<and> history t = history s \<and>
                 historyIndex t = historyIndex s - 1 \<and>
                 elements t = history t ! historyIndex t)"
    using s(2) by (simp add: handleUndo_pos)
  have undo0: "historyIndex s = 0 \<longrightarrow> step Undo s = Inr s"
    by (simp add: handleUndo_zero)
  have redo: "historyIndex s + 1 < length (history s) \<longrightarrow>
            (\<exists>t. step Redo s = Inr t \<and> history t = history s \<and>
                 historyIndex t = historyIndex s + 1 \<and>
                 elements t = history t ! historyIndex t)"
    by (simp add: handleRedo_step)
  have redo0: "\<not> historyIndex s + 1 < length (history s) \<longrightarrow> step Redo s = Inr s"
    by (simp add: handleRedo_top)
  have load: "els \<noteq> [] \<longrightarrow>
            (\<exists>t. step (SessionLoad els) s = Inr t \<and> history t = [[], els] \<and>
                 historyIndex t = 1 \<and> elements t = els)"
    by (simp add: onElementsLoaded_def)
  have load0: "step (SessionLoad []) s = Inr s"
    by (simp add: onElementsLoaded_def)
  show ?thesis
    using s disp local remote commit undo undo0 redo redo0 load load0
    by - (rule exI [of _ s], intro conjI, assumption+)
qed

text \<open>
  The witness: a commit, an undo, a redo and a session load, with no remote update,
  end with the display equal to the snapshot at the index; and after a commit and a
  remote update, which leaves the two snapshots and the index 1 in place, an undo
  displays the snapshot at index 0 again.
\<close>

theorem history_invariant_reachable_witness:
  "remotePayloads
     [Commit [createNewElement ''a'' Rectangle \<lparr>p_x = 0, p_y = 0\<rparr> ''#000000'' 2], Undo, Redo,
      SessionLoad [createNewElement ''b'' Circle \<lparr>p_x = 5, p_y = 5\<rparr> ''#000000'' 2]] = []
   \<and> (\<exists>s. run
        [Commit [createNewElement ''a'' Rectangle \<lparr>p_x = 0, p_y = 0\<rparr> ''#000000'' 2], Undo, Redo,
         SessionLoad [createNewElement ''b'' Circle \<lparr>p_x = 5, p_y = 5\<rparr> ''#000000'' 2]]
        initialState = Inr s
       \<and> historyIndex s < length (history s)
       \<and> elements s = history s ! historyIndex s)
   \<and> (\<exists>s t. run
        [Commit [createNewElement ''a'' Rectangle \<lparr>p_x = 0, p_y = 0\<rparr> ''#000000'' 2],
         RemoteUpdate [createNewElement ''b'' Circle \<lparr>p_x = 5, p_y = 5\<rparr> ''#000000'' 2]]
        initialState = Inr s
       \<and> elements s = [createNewElement ''b'' Circle \<lparr>p_x = 5, p_y = 5\<rparr> ''#000000'' 2]
       \<and> history s = [[], [createNewElement ''a'' Rectangle \<lparr>p_x = 0, p_y = 0\<rparr> ''#000000'' 2]]
       \<and> historyIndex s = 1
       \<and> step Undo s = Inr t
       \<and> historyIndex t = 0
       \<and> elements t = history t ! historyIndex t
       \<and> elements t = [])"
proof -
  let ?A = "[createNewElement ''a'' Rectangle \<lparr>p_x = 0, p_y = 0\<rparr> ''#000000'' 2]"
  let ?B = "[createNewElement ''b'' Circle \<lparr>p_x = 5, p_y = 5\<rparr> ''#000000'' 2]"
  let ?ops1 = "[Commit ?A, Undo, Redo, SessionLoad ?B]"
  let ?ops2 = "[Commit ?A, RemoteUpdate ?B]"
  have local: "remotePayloads ?ops1 = []"
    by simp
  from history_invariant_reachable [where ops = ?ops1 and els = "[]"] obtain s1 where
    s1: "run ?ops1 initialState = Inr s1" "historyIndex s1 < length (history s1)"
    and synced: "remotePayloads ?ops1 = [] \<longrightarrow> elements s1 = history s1 ! historyIndex s1"
    by (elim exE conjE) (rule that)
  from synced local have "elements s1 = history s1 ! historyIndex s1"
    by (rule mp)
  with s1
  have first: "\<exists>s. run ?ops1 initialState = Inr s \<and> historyIndex s < length (history s) \<and>
                  elements s = history s ! historyIndex s"
    by (intro exI [of _ s1] conjI)
  have h0: "history initialState = [[]]" and i0: "historyIndex initialState = 0"
    by (simp_all add: initialState_def)
  let ?x = "handleCollaborativeElementsUpdate ?B (handleElementsChange ?A initialState)"
  have reach: "run ?ops2 initialState = Inr ?x"
    by simp
  have hx: "history ?x = [[], ?A]" and ix: "historyIndex ?x = 1" and ex: "elements ?x = ?B"
    by (simp_all add: handleCollaborativeElementsUpdate_def handleElementsChange_fields h0 i0)
  from history_invariant_reachable [where ops = ?ops2 and els = "[]"] obtain s where
    s: "run ?ops2 initialState = Inr s"
    and undo: "0 < historyIndex s \<longrightarrow>
            (\<exists>t. step Undo s = Inr t \<and> history t = history s \<and>
                 historyIndex t = historyIndex s - 1 \<and>
                 elements t = history t ! historyIndex t)"
    by (elim exE conjE) (rule that)
  from s reach have sx: "s = ?x"
    by simp
  have "0 < historyIndex s"
    unfolding sx ix by simp
  with undo have "\<exists>t. step Undo s = Inr t \<and> history t = history s \<and>
                 historyIndex t = historyIndex s - 1 \<and>
                 elements t = history t ! historyIndex t"
    by (rule mp)
  then obtain t where
    t: "step Undo s = Inr t" "history t = history s" "historyIndex t = historyIndex s - 1"
      "elements t = history t ! historyIndex t"
    by (elim exE conjE) (rule that)
  have "historyIndex t = 0" and "elements t = []"
    using t(2,3,4) unfolding sx hx ix by simp_all
  with t(1,4) s have second:
    "\<exists>s t. run ?ops2 initialState = Inr s \<and> elements s = ?B \<and> history s = [[], ?A] \<and>
       historyIndex s = 1 \<and> step Undo s = Inr t \<and> historyIndex t = 0 \<and>
       elements t = history t ! historyIndex t \<and> elements t = []"
    unfolding sx using hx ix ex by (intro exI [of _ ?x] exI [of _ t]) simp
  from local first second show ?thesis
    by (intro conjI)
qed

text \<open>
  The claim as stated fails after a remote elements-update: a local commit of one
  rectangle followed by the empty collection from another user leaves the rectangle's
  snapshot at the current index and the empty collection on display.
\<close>

theorem history_invariant_counterexample:
  "run [Commit [createNewElement ''a'' Rectangle \<lparr>p_x = 0, p_y = 0\<rparr> ''#000000'' 2],
        RemoteUpdate []] initialState =
     Inr (handleCollaborativeElementsUpdate []
            (handleElementsChange
               [createNewElement ''a'' Rectangle \<lparr>p_x = 0, p_y = 0\<rparr> ''#000000'' 2] initialState))
   \<and> history (handleCollaborativeElementsUpdate []
            (handleElementsChange
               [createNewElement ''a'' Rectangle \<lparr>p_x = 0, p_y = 0\<rparr> ''#000000'' 2] initialState))
       ! historyIndex (handleCollaborativeElementsUpdate []
            (handleElementsChange
               [createNewElement ''a'' Rectangle \<lparr>p_x = 0, p_y = 0\<rparr> ''#000000'' 2] initialState))
     \<noteq> elements (handleCollaborativeElementsUpdate []
            (handleElementsChange
               [createNewElement ''a'' Rectangle \<lparr>p_x = 0, p_y = 0\<rparr> ''#000000'' 2] initialState))"
  by (simp add: handleCollaborativeElementsUpdate_def handleElementsChange_def initialState_def)



section \<open>Inbound messages\<close>

lemma onMessage_own: "messageUserId m = u_id user \<Longrightarrow> onMessage user m s = s"
  by (cases m) (simp_all add: onMessage_def)

lemma onMessage_remote_elements:
  "userId \<noteq> u_id user \<Longrightarrow>
   onMessage user (ElementsUpdate userId els timestamp md) s = s\<lparr>elements := els\<rparr>"
  by (simp add: onMessage_def handleCollaborativeElementsUpdate_def)

text \<open>
  C1. An elements-update message of another user replaces the element collection by the
  payload and leaves the snapshots and the history index as they are. An undo after it
  gives the state the undo would have given without it: after a local commit and a
  remote replacement, undo displays the snapshot that precedes the commit. A message
  that carries the local user's id changes nothing.
\<close>

theorem remote_update_bypasses_history:
  "(userId \<noteq> u_id user \<longrightarrow>
      elements (onMessage user (ElementsUpdate userId els timestamp md) s) = els
      \<and> history (onMessage user (ElementsUpdate userId els timestamp md) s) = history s
      \<and> historyIndex (onMessage user (ElementsUpdate userId els timestamp md) s) = historyIndex s)
   \<and> (userId \<noteq> u_id user \<and> 0 < historyIndex s \<and> historyIndex s < length (history s) \<longrightarrow>
      handleUndo (onMessage user (ElementsUpdate userId els timestamp md) s) = handleUndo s
      \<and> handleUndo s =
          Inr (s\<lparr>historyIndex := historyIndex s - 1,
                 elements := history s ! (historyIndex s - 1)\<rparr>))
   \<and> (userId \<noteq> u_id user \<and> historyIndex s < length (history s) \<longrightarrow>
      (\<exists>s'. handleUndo (onMessage user (ElementsUpdate userId els timestamp md)
                 (handleElementsChange committed s)) = Inr s'
            \<and> elements s' = history s ! historyIndex s
            \<and> historyIndex s' = historyIndex s
            \<and> handleUndo (handleElementsChange committed s) = Inr s'))
   \<and> (messageUserId m = u_id user \<longrightarrow>
      onMessage user m s = s \<and> elements (onMessage user m s) = elements s)"
proof (intro conjI impI)
  assume remote: "userId \<noteq> u_id user"
  then show "elements (onMessage user (ElementsUpdate userId els timestamp md) s) = els"
    and "history (onMessage user (ElementsUpdate userId els timestamp md) s) = history s"
    and "historyIndex (onMessage user (ElementsUpdate userId els timestamp md) s) = historyIndex s"
    by (simp_all add: onMessage_remote_elements)
next
  assume a: "userId \<noteq> u_id user \<and> 0 < historyIndex s \<and> historyIndex s < length (history s)"
  then show u: "handleUndo s =
          Inr (s\<lparr>historyIndex := historyIndex s - 1,
                 elements := history s ! (historyIndex s - 1)\<rparr>)"
    by (simp add: handleUndo_pos)
  from a have "handleUndo (s\<lparr>elements := els\<rparr>) =
          Inr (s\<lparr>historyIndex := historyIndex s - 1,
                 elements := history s ! (historyIndex s - 1)\<rparr>)"
    by (simp add: handleUndo_pos)
  with a u show "handleUndo (onMessage user (ElementsUpdate userId els timestamp md) s) = handleUndo s"
    by (simp add: onMessage_remote_elements)
next
  assume a: "userId \<noteq> u_id user \<and> historyIndex s < length (history s)"
  let ?c = "handleElementsChange committed s"
  let ?s' = "?c\<lparr>historyIndex := historyIndex ?c - 1,
                elements := history ?c ! (historyIndex ?c - 1)\<rparr>"
  have hc: "history ?c = take (historyIndex s + 1) (history s) @ [committed]"
    and ic: "historyIndex ?c = historyIndex s + 1"
    using a by (simp_all add: handleElementsChange_fields)
  have pos: "0 < historyIndex ?c" and le: "historyIndex ?c \<le> length (history ?c)"
    using a by (simp_all add: hc ic)
  have u: "handleUndo ?c = Inr ?s'"
    using pos le by (rule handleUndo_pos)
  have "handleUndo (?c\<lparr>elements := els\<rparr>) =
          Inr (?c\<lparr>elements := els\<rparr>
                 \<lparr>historyIndex := historyIndex (?c\<lparr>elements := els\<rparr>) - 1,
                  elements := history (?c\<lparr>elements := els\<rparr>) ! (historyIndex (?c\<lparr>elements := els\<rparr>) - 1)\<rparr>)"
    using pos le by (intro handleUndo_pos) simp_all
  then have r: "handleUndo (onMessage user (ElementsUpdate userId els timestamp md) ?c) = Inr ?s'"
    using a by (simp add: onMessage_remote_elements)
  have e: "elements ?s' = history s ! historyIndex s"
    using a by (simp add: hc ic nth_append)
  have i: "historyIndex ?s' = historyIndex s"
    by (simp add: ic)
  from r e i u
  show "\<exists>s'. handleUndo (onMessage user (ElementsUpdate userId els timestamp md)
                 (handleElementsChange committed s)) = Inr s'
            \<and> elements s' = history s ! historyIndex s
            \<and> historyIndex s' = historyIndex s
            \<and> handleUndo (handleElementsChange committed s) = Inr s'"
    by blast
next
  assume "messageUserId m = u_id user"
  then show "onMessage user m s = s" and "elements (onMessage user m s) = elements s"
    by (simp_all add: onMessage_own)
qed

theorem remote_update_bypasses_history_witness:
  "''other'' \<noteq> u_id \<lparr>u_id = ''me'', u_email = ''me@example.org'', u_displayName = ''me''\<rparr>
   \<and> historyIndex initialState < length (history initialState)
   \<and> elements (onMessage \<lparr>u_id = ''me'', u_email = ''me@example.org'', u_displayName = ''me''\<rparr>
        (ElementsUpdate ''other''
           [createNewElement ''b'' Circle \<lparr>p_x = 5, p_y = 5\<rparr> ''#000000'' 2] 7 None) initialState)
       = [createNewElement ''b'' Circle \<lparr>p_x = 5, p_y = 5\<rparr> ''#000000'' 2]
   \<and> history (onMessage \<lparr>u_id = ''me'', u_email = ''me@example.org'', u_displayName = ''me''\<rparr>
        (ElementsUpdate ''other''
           [createNewElement ''b'' Circle \<lparr>p_x = 5, p_y = 5\<rparr> ''#000000'' 2] 7 None) initialState)
       = [[]]
   \<and> (\<exists>s'. handleUndo
          (onMessage \<lparr>u_id = ''me'', u_email = ''me@example.org'', u_displayName = ''me''\<rparr>
             (ElementsUpdate ''other''
                [createNewElement ''b'' Circle \<lparr>p_x = 5, p_y = 5\<rparr> ''#000000'' 2] 7 None)
             (handleElementsChange
                [createNewElement ''a'' Rectangle \<lparr>p_x = 0, p_y = 0\<rparr> ''#000000'' 2] initialState))
          = Inr s' \<and> elements s' = [] \<and> historyIndex s' = 0)
   \<and> onMessage \<lparr>u_id = ''me'', u_email = ''me@example.org'', u_displayName = ''me''\<rparr>
        (ElementsUpdate ''me''
           [createNewElement ''b'' Circle \<lparr>p_x = 5, p_y = 5\<rparr> ''#000000'' 2] 7 None) initialState
       = initialState"
proof -
  let ?me = "\<lparr>u_id = ''me'', u_email = ''me@example.org'', u_displayName = ''me''\<rparr>"
  let ?a = "[createNewElement ''a'' Rectangle \<lparr>p_x = 0, p_y = 0\<rparr> ''#000000'' 2]"
  let ?b = "[createNewElement ''b'' Circle \<lparr>p_x = 5, p_y = 5\<rparr> ''#000000'' 2]"
  have h0: "history initialState = [[]]" and i0: "historyIndex initialState = 0"
    by (simp_all add: initialState_def)
  have other: "''other'' \<noteq> u_id ?me"
    by simp
  have inv: "historyIndex initialState < length (history initialState)"
    by (simp add: h0 i0)
  note t = remote_update_bypasses_history [where user = ?me and userId = "''other''"
      and els = ?b and timestamp = 7 and md = None and s = initialState and committed = ?a
      and m = "ElementsUpdate ''me'' ?b 7 None"]
  from t other have replaced:
    "elements (onMessage ?me (ElementsUpdate ''other'' ?b 7 None) initialState) = ?b
     \<and> history (onMessage ?me (ElementsUpdate ''other'' ?b 7 None) initialState) = [[]]"
    by (simp add: h0)
  from t other inv have
    "\<exists>s'. handleUndo (onMessage ?me (ElementsUpdate ''other'' ?b 7 None)
                 (handleElementsChange ?a initialState)) = Inr s'
          \<and> elements s' = history initialState ! historyIndex initialState
          \<and> historyIndex s' = historyIndex initialState
          \<and> handleUndo (handleElementsChange ?a initialState) = Inr s'"
    by blast
  then have undone:
    "\<exists>s'. handleUndo (onMessage ?me (ElementsUpdate ''other'' ?b 7 None)
                 (handleElementsChange ?a initialState)) = Inr s'
          \<and> elements s' = [] \<and> historyIndex s' = 0"
    by (auto simp add: h0 i0)
  from t have own: "onMessage ?me (ElementsUpdate ''me'' ?b 7 None) initialState = initialState"
    by simp
  from other inv replaced undone own show ?thesis
    by blast
qed


section \<open>Cursor presence\<close>

lemma onMessage_cursors:
  "userId \<noteq> u_id user \<Longrightarrow>
   cursors (collaboration (onMessage user (CursorMove userId mx my timestamp md) s)) =
     filter (\<lambda>c. c_userId c \<noteq> userId) (cursors (collaboration s)) @
       [\<lparr>c_userId = userId, c_x = mx, c_y = my,
         c_displayName = str_or (metadataDisplayName md) ''Anonymous'',
         c_color = str_or (metadataColor md) ''#666''\<rparr>]"
  by (simp add: onMessage_def)

lemma onMessage_cursors_other:
  "\<not> (isCursorMove m \<and> messageUserId m = userId) \<Longrightarrow>
   filter (\<lambda>c. c_userId c = userId) (cursors (collaboration (onMessage user m s))) =
   filter (\<lambda>c. c_userId c = userId) (cursors (collaboration s))"
proof (cases m)
  case (CursorMove uid mx my timestamp md)
  moreover assume "\<not> (isCursorMove m \<and> messageUserId m = userId)"
  ultimately have ne: "uid \<noteq> userId"
    by simp
  have "filter (\<lambda>c. c_userId c = userId) (filter (\<lambda>c. c_userId c \<noteq> uid) cs) =
        filter (\<lambda>c. c_userId c = userId) cs" for cs :: "UserCursor list"
    using ne by (induction cs) auto
  with ne CursorMove show ?thesis
    by (auto simp add: onMessage_def)
next
  case (ElementsUpdate uid els timestamp md)
  then show ?thesis
    by (simp add: onMessage_def handleCollaborativeElementsUpdate_def)
next
  case (OtherMessage ty uid)
  then show ?thesis
    by (simp add: onMessage_def)
qed

lemma onMessage_distinct:
  "distinct (map c_userId (cursors (collaboration s))) \<Longrightarrow>
   distinct (map c_userId (cursors (collaboration (onMessage user m s))))"
proof (cases m)
  case (CursorMove uid mx my timestamp md)
  assume d: "distinct (map c_userId (cursors (collaboration s)))"
  have "distinct (map c_userId (filter (\<lambda>c. c_userId c \<noteq> uid) cs))"
    if "distinct (map c_userId cs)" for cs :: "UserCursor list"
    using that by (simp add: distinct_map_filter)
  moreover have "uid \<notin> c_userId ` set (filter (\<lambda>c. c_userId c \<noteq> uid) cs)"
    for cs :: "UserCursor list"
    by auto
  ultimately show ?thesis
    using d CursorMove by (auto simp add: onMessage_def)
next
  case (ElementsUpdate uid els timestamp md)
  moreover assume "distinct (map c_userId (cursors (collaboration s)))"
  ultimately show ?thesis
    by (simp add: onMessage_def handleCollaborativeElementsUpdate_def)
next
  case (OtherMessage ty uid)
  moreover assume "distinct (map c_userId (cursors (collaboration s)))"
  ultimately show ?thesis
    by (simp add: onMessage_def)
qed

lemma onMessages_Cons: "onMessages user (m # msgs) s = onMessages user msgs (onMessage user m s)"
  by (simp add: onMessages_def)

lemma onMessages_append:
  "onMessages user (a @ b) s = onMessages user b (onMessages user a s)"
  by (simp add: onMessages_def)

lemma onMessages_distinct:
  "distinct (map c_userId (cursors (collaboration s))) \<Longrightarrow>
   distinct (map c_userId (cursors (collaboration (onMessages user msgs s))))"
proof (induction msgs arbitrary: s)
  case Nil
  then show ?case by (simp add: onMessages_def)
next
  case (Cons m msgs)
  from Cons.prems have "distinct (map c_userId (cursors (collaboration (onMessage user m s))))"
    by (rule onMessage_distinct)
  then show ?case
    unfolding onMessages_Cons by (rule Cons.IH)
qed

lemma onMessages_cursors_other:
  "\<forall>m \<in> set msgs. \<not> (isCursorMove m \<and> messageUserId m = userId) \<Longrightarrow>
   filter (\<lambda>c. c_userId c = userId) (cursors (collaboration (onMessages user msgs s))) =
   filter (\<lambda>c. c_userId c = userId) (cursors (collaboration s))"
proof (induction msgs arbitrary: s)
  case Nil
  then show ?case by (simp add: onMessages_def)
next
  case (Cons m msgs)
  then have "\<not> (isCursorMove m \<and> messageUserId m = userId)"
    and rest: "\<forall>m \<in> set msgs. \<not> (isCursorMove m \<and> messageUserId m = userId)"
    by simp_all
  then have "filter (\<lambda>c. c_userId c = userId) (cursors (collaboration (onMessage user m s))) =
             filter (\<lambda>c. c_userId c = userId) (cursors (collaboration s))"
    by (intro onMessage_cursors_other)
  with Cons.IH [OF rest, of "onMessage user m s"] show ?case
    by (simp add: onMessages_Cons)
qed

text \<open>
  C8. A cursor-move message with the local user's id is ignored. One of another user
  replaces that user's entry in the cursor list: the entries of the other users stay, in
  their order, and the new entry is appended. So after any sequence of messages, from a
  list with at most one entry per user (the initial list is empty), the list has at most
  one entry per user; and the single entry of a remote user is the one built from the
  last cursor-move message of that user in the order of processing, whatever the
  timestamps the messages carry.
\<close>

theorem cursor_upsert_last_wins:
  "onMessage user (CursorMove (u_id user) mx my timestamp md) s = s
   \<and> (userId \<noteq> u_id user \<longrightarrow>
        cursors (collaboration (onMessage user (CursorMove userId mx my timestamp md) s)) =
          filter (\<lambda>c. c_userId c \<noteq> userId) (cursors (collaboration s)) @
            [\<lparr>c_userId = userId, c_x = mx, c_y = my,
              c_displayName = str_or (metadataDisplayName md) ''Anonymous'',
              c_color = str_or (metadataColor md) ''#666''\<rparr>])
   \<and> cursors (collaboration initialState) = []
   \<and> (distinct (map c_userId (cursors (collaboration s))) \<longrightarrow>
        distinct (map c_userId (cursors (collaboration (onMessages user msgs s)))))
   \<and> (userId \<noteq> u_id user \<and>
        (\<forall>m \<in> set later. \<not> (isCursorMove m \<and> messageUserId m = userId)) \<longrightarrow>
        filter (\<lambda>c. c_userId c = userId)
          (cursors (collaboration
             (onMessages user (earlier @ CursorMove userId mx my timestamp md # later) s))) =
          [\<lparr>c_userId = userId, c_x = mx, c_y = my,
            c_displayName = str_or (metadataDisplayName md) ''Anonymous'',
            c_color = str_or (metadataColor md) ''#666''\<rparr>])"
proof (intro conjI impI)
  show "onMessage user (CursorMove (u_id user) mx my timestamp md) s = s"
    by (simp add: onMessage_own)
  show "cursors (collaboration initialState) = []"
    by (simp add: initialState_def)
next
  assume "userId \<noteq> u_id user"
  then show "cursors (collaboration (onMessage user (CursorMove userId mx my timestamp md) s)) =
          filter (\<lambda>c. c_userId c \<noteq> userId) (cursors (collaboration s)) @
            [\<lparr>c_userId = userId, c_x = mx, c_y = my,
              c_displayName = str_or (metadataDisplayName md) ''Anonymous'',
              c_color = str_or (metadataColor md) ''#666''\<rparr>]"
    by (rule onMessage_cursors)
next
  assume "distinct (map c_userId (cursors (collaboration s)))"
  then show "distinct (map c_userId (cursors (collaboration (onMessages user msgs s))))"
    by (rule onMessages_distinct)
next
  assume a: "userId \<noteq> u_id user \<and>
        (\<forall>m \<in> set later. \<not> (isCursorMove m \<and> messageUserId m = userId))"
  let ?entry = "\<lparr>c_userId = userId, c_x = mx, c_y = my,
            c_displayName = str_or (metadataDisplayName md) ''Anonymous'',
            c_color = str_or (metadataColor md) ''#666''\<rparr>"
  let ?s1 = "onMessages user earlier s"
  let ?s2 = "onMessage user (CursorMove userId mx my timestamp md) ?s1"
  have split: "onMessages user (earlier @ CursorMove userId mx my timestamp md # later) s =
               onMessages user later ?s2"
    by (simp add: onMessages_append onMessages_Cons)
  have "filter (\<lambda>c. c_userId c = userId) (cursors (collaboration ?s2)) = [?entry]"
    using a by (simp add: onMessage_cursors)
  moreover have "filter (\<lambda>c. c_userId c = userId) (cursors (collaboration (onMessages user later ?s2))) =
                 filter (\<lambda>c. c_userId c = userId) (cursors (collaboration ?s2))"
    using a by (intro onMessages_cursors_other) simp
  ultimately show "filter (\<lambda>c. c_userId c = userId)
          (cursors (collaboration
             (onMessages user (earlier @ CursorMove userId mx my timestamp md # later) s))) =
          [?entry]"
    by (simp only: split)
qed

text \<open>
  The witness: two cursor-move messages of the user bob arrive out of timestamp order
  (timestamp 200 first, then 100), with an echo of the local user in between and an
  elements-update of a third user after them. The entry of bob is the one processed
  last.
\<close>

theorem cursor_upsert_last_wins_witness:
  "''bob'' \<noteq> u_id \<lparr>u_id = ''me'', u_email = ''me@example.org'', u_displayName = ''me''\<rparr>
   \<and> distinct (map c_userId (cursors (collaboration initialState)))
   \<and> distinct (map c_userId (cursors (collaboration
        (onMessages \<lparr>u_id = ''me'', u_email = ''me@example.org'', u_displayName = ''me''\<rparr>
           [CursorMove ''bob'' 1 1 200 None, CursorMove ''me'' 9 9 150 None,
            CursorMove ''bob'' 2 2 100 None, ElementsUpdate ''amy'' [] 50 None]
           initialState))))
   \<and> filter (\<lambda>c. c_userId c = ''bob'') (cursors (collaboration
        (onMessages \<lparr>u_id = ''me'', u_email = ''me@example.org'', u_displayName = ''me''\<rparr>
           [CursorMove ''bob'' 1 1 200 None, CursorMove ''me'' 9 9 150 None,
            CursorMove ''bob'' 2 2 100 None, ElementsUpdate ''amy'' [] 50 None]
           initialState)))
       = [\<lparr>c_userId = ''bob'', c_x = 2, c_y = 2, c_displayName = ''Anonymous'', c_color = ''#666''\<rparr>]"
proof -
  let ?me = "\<lparr>u_id = ''me'', u_email = ''me@example.org'', u_displayName = ''me''\<rparr>"
  let ?earlier = "[CursorMove ''bob'' 1 1 200 None, CursorMove ''me'' 9 9 150 None]"
  let ?later = "[ElementsUpdate ''amy'' [] 50 None]"
  let ?msgs = "?earlier @ CursorMove ''bob'' 2 2 100 None # ?later"
  note t = cursor_upsert_last_wins [where user = ?me and userId = "''bob''" and mx = 2 and my = 2
      and timestamp = 100 and md = None and s = initialState and earlier = ?earlier
      and later = ?later and msgs = ?msgs]
  have remote: "''bob'' \<noteq> u_id ?me"
    by simp
  have d0: "distinct (map c_userId (cursors (collaboration initialState)))"
    using t by simp
  have quiet: "\<forall>m \<in> set ?later. \<not> (isCursorMove m \<and> messageUserId m = ''bob'')"
    by simp
  from t d0 have d: "distinct (map c_userId (cursors (collaboration (onMessages ?me ?msgs initialState))))"
    by blast
  from t remote quiet
  have "filter (\<lambda>c. c_userId c = ''bob'') (cursors (collaboration (onMessages ?me ?msgs initialState))) =
          [\<lparr>c_userId = ''bob'', c_x = 2, c_y = 2,
            c_displayName = str_or (metadataDisplayName None) ''Anonymous'',
            c_color = str_or (metadataColor None) ''#666''\<rparr>]"
    by blast
  then have e: "filter (\<lambda>c. c_userId c = ''bob'') (cursors (collaboration (onMessages ?me ?msgs initialState))) =
          [\<lparr>c_userId = ''bob'', c_x = 2, c_y = 2, c_displayName = ''Anonymous'', c_color = ''#666''\<rparr>]"
    by (simp add: str_or_def metadataDisplayName_def metadataColor_def)
  from remote d0 d e show ?thesis
    by simp
qed



section \<open>Selection on pointer-down\<close>

lemma handleMouseDown_select_hit:
  assumes "activeTool s = Select"
    and "find (isPointInElement (screenToCanvas canvas (viewport s) cx cy)) (elements s) = Some clicked"
  shows "handleMouseDown canvas newId cx cy s =
           handleElementsChange
             (map (\<lambda>el. el\<lparr>el_selected := Some (el_id el = el_id clicked)\<rparr>) (elements s)) s"
  using assms by (simp add: handleMouseDown_def Let_def)

lemma handleMouseDown_select_miss:
  assumes "activeTool s = Select"
    and "find (isPointInElement (screenToCanvas canvas (viewport s) cx cy)) (elements s) = None"
  shows "handleMouseDown canvas newId cx cy s =
           handleElementsChange
             (map (\<lambda>el. el\<lparr>el_selected := Some False\<rparr>) (elements s))
             (s\<lparr>isPanning := True, lastPanPoint := \<lparr>p_x = cx, p_y = cy\<rparr>\<rparr>)"
  using assms by (simp add: handleMouseDown_def Let_def)

lemma handleElementsChange_frame:
  "isPanning (handleElementsChange n s) = isPanning s"
  "lastPanPoint (handleElementsChange n s) = lastPanPoint s"
  "drawingState (handleElementsChange n s) = drawingState s"
  "viewport (handleElementsChange n s) = viewport s"
  "published (handleElementsChange n s) = published s"
  "currentUser (handleElementsChange n s) = currentUser s"
  by (simp_all add: handleElementsChange_def Let_def)

text \<open>
  C7 (as the code has it). Pointer-down with the select tool scans the collection in
  storage order. If the element at position \<open>k\<close> contains the point and no element
  before it does, then afterwards the collection has the same length and order, every
  element has \<open>selected\<close> set to whether its id equals that of element \<open>k\<close> and is
  otherwise unchanged, and the pan and drawing state are as before; when the ids of
  the collection are pairwise different, the element at position \<open>i\<close> is the old one
  with \<open>selected\<close> set to \<open>i = k\<close>, so that exactly the first hit is selected. If no
  element contains the point, every element is the old one with \<open>selected\<close> set to
  false, and the canvas is panning, anchored at the pointer position.
\<close>

theorem select_first_hit:
  assumes "activeTool s = Select"
  shows "length (elements (handleMouseDown canvas newId cx cy s)) = length (elements s)
   \<and> (k < length (elements s) \<and>
        isPointInElement (screenToCanvas canvas (viewport s) cx cy) (elements s ! k) \<and>
        (\<forall>j < k. \<not> isPointInElement (screenToCanvas canvas (viewport s) cx cy) (elements s ! j)) \<longrightarrow>
          elements (handleMouseDown canvas newId cx cy s) =
            map (\<lambda>el. el\<lparr>el_selected := Some (el_id el = el_id (elements s ! k))\<rparr>) (elements s)
          \<and> isPanning (handleMouseDown canvas newId cx cy s) = isPanning s
          \<and> drawingState (handleMouseDown canvas newId cx cy s) = drawingState s
          \<and> (distinct (map el_id (elements s)) \<longrightarrow>
               (\<forall>i < length (elements s).
                  elements (handleMouseDown canvas newId cx cy s) ! i =
                    (elements s ! i)\<lparr>el_selected := Some (i = k)\<rparr>)))
   \<and> ((\<forall>el \<in> set (elements s).
          \<not> isPointInElement (screenToCanvas canvas (viewport s) cx cy) el) \<longrightarrow>
          (\<forall>i < length (elements s).
             elements (handleMouseDown canvas newId cx cy s) ! i =
               (elements s ! i)\<lparr>el_selected := Some False\<rparr>)
          \<and> isPanning (handleMouseDown canvas newId cx cy s)
          \<and> lastPanPoint (handleMouseDown canvas newId cx cy s) = \<lparr>p_x = cx, p_y = cy\<rparr>
          \<and> drawingState (handleMouseDown canvas newId cx cy s) = drawingState s)"
proof (intro conjI impI)
  let ?hit = "isPointInElement (screenToCanvas canvas (viewport s) cx cy)"
  show "length (elements (handleMouseDown canvas newId cx cy s)) = length (elements s)"
  proof (cases "find ?hit (elements s)")
    case None
    with assms show ?thesis
      by (simp add: handleMouseDown_select_miss handleElementsChange_fields)
  next
    case (Some clicked)
    with assms show ?thesis
      by (simp add: handleMouseDown_select_hit handleElementsChange_fields)
  qed
next
  let ?hit = "isPointInElement (screenToCanvas canvas (viewport s) cx cy)"
  let ?s' = "handleMouseDown canvas newId cx cy s"
  assume first: "k < length (elements s) \<and> ?hit (elements s ! k) \<and>
        (\<forall>j < k. \<not> ?hit (elements s ! j))"
  then have found: "find ?hit (elements s) = Some (elements s ! k)"
    by (auto simp add: find_Some_iff)
  have down: "?s' = handleElementsChange
             (map (\<lambda>el. el\<lparr>el_selected := Some (el_id el = el_id (elements s ! k))\<rparr>) (elements s)) s"
    using assms found by (rule handleMouseDown_select_hit)
  show els: "elements ?s' =
            map (\<lambda>el. el\<lparr>el_selected := Some (el_id el = el_id (elements s ! k))\<rparr>) (elements s)"
    by (simp add: down handleElementsChange_fields)
  show "isPanning ?s' = isPanning s" and "drawingState ?s' = drawingState s"
    by (simp_all add: down handleElementsChange_frame)
  show "\<forall>i < length (elements s). elements ?s' ! i = (elements s ! i)\<lparr>el_selected := Some (i = k)\<rparr>"
    if d: "distinct (map el_id (elements s))"
  proof (intro allI impI)
    fix i
    assume i: "i < length (elements s)"
    have "(el_id (elements s ! i) = el_id (elements s ! k)) = (i = k)"
      using d i first by (auto simp add: distinct_conv_nth)
    then show "elements ?s' ! i = (elements s ! i)\<lparr>el_selected := Some (i = k)\<rparr>"
      using i by (simp add: els)
  qed
next
  let ?hit = "isPointInElement (screenToCanvas canvas (viewport s) cx cy)"
  let ?s' = "handleMouseDown canvas newId cx cy s"
  assume "\<forall>el \<in> set (elements s). \<not> ?hit el"
  then have "find ?hit (elements s) = None"
    by (simp add: find_None_iff)
  with assms have down: "?s' = handleElementsChange
             (map (\<lambda>el. el\<lparr>el_selected := Some False\<rparr>) (elements s))
             (s\<lparr>isPanning := True, lastPanPoint := \<lparr>p_x = cx, p_y = cy\<rparr>\<rparr>)"
    by (rule handleMouseDown_select_miss)
  show "\<forall>i < length (elements s). elements ?s' ! i = (elements s ! i)\<lparr>el_selected := Some False\<rparr>"
    by (simp add: down handleElementsChange_fields)
  show "isPanning ?s'" and "lastPanPoint ?s' = \<lparr>p_x = cx, p_y = cy\<rparr>"
    and "drawingState ?s' = drawingState s"
    by (simp_all add: down handleElementsChange_frame)
qed

text \<open>
  The witness: a line, a rectangle from (0, 0) to (10, 10) and a later rectangle from
  (5, 5) to (15, 15). A click at (7, 7) lies in both rectangles and selects the first;
  a click at (100, 100) hits nothing, deselects all and starts panning.
\<close>

theorem select_first_hit_witness:
  "activeTool (initialState\<lparr>activeTool := Select,
        elements :=
          [updateElementWithPoint (createNewElement ''l'' Line \<lparr>p_x = 0, p_y = 0\<rparr> ''#000000'' 2) \<lparr>p_x = 10, p_y = 10\<rparr> [],
           updateElementWithPoint (createNewElement ''r1'' Rectangle \<lparr>p_x = 0, p_y = 0\<rparr> ''#000000'' 2) \<lparr>p_x = 10, p_y = 10\<rparr> [],
           updateElementWithPoint (createNewElement ''r2'' Rectangle \<lparr>p_x = 5, p_y = 5\<rparr> ''#000000'' 2) \<lparr>p_x = 15, p_y = 15\<rparr> []]\<rparr>) = Select
   \<and> distinct (map el_id (elements (initialState\<lparr>activeTool := Select,
        elements :=
          [updateElementWithPoint (createNewElement ''l'' Line \<lparr>p_x = 0, p_y = 0\<rparr> ''#000000'' 2) \<lparr>p_x = 10, p_y = 10\<rparr> [],
           updateElementWithPoint (createNewElement ''r1'' Rectangle \<lparr>p_x = 0, p_y = 0\<rparr> ''#000000'' 2) \<lparr>p_x = 10, p_y = 10\<rparr> [],
           updateElementWithPoint (createNewElement ''r2'' Rectangle \<lparr>p_x = 5, p_y = 5\<rparr> ''#000000'' 2) \<lparr>p_x = 15, p_y = 15\<rparr> []]\<rparr>)))
   \<and> elements (handleMouseDown (Some \<lparr>rect_left = 0, rect_top = 0\<rparr>) ''n'' 7 7
       (initialState\<lparr>activeTool := Select,
        elements :=
          [updateElementWithPoint (createNewElement ''l'' Line \<lparr>p_x = 0, p_y = 0\<rparr> ''#000000'' 2) \<lparr>p_x = 10, p_y = 10\<rparr> [],
           updateElementWithPoint (createNewElement ''r1'' Rectangle \<lparr>p_x = 0, p_y = 0\<rparr> ''#000000'' 2) \<lparr>p_x = 10, p_y = 10\<rparr> [],
           updateElementWithPoint (createNewElement ''r2'' Rectangle \<lparr>p_x = 5, p_y = 5\<rparr> ''#000000'' 2) \<lparr>p_x = 15, p_y = 15\<rparr> []]\<rparr>)) ! 0 =
     (updateElementWithPoint (createNewElement ''l'' Line \<lparr>p_x = 0, p_y = 0\<rparr> ''#000000'' 2) \<lparr>p_x = 10, p_y = 10\<rparr> [])
       \<lparr>el_selected := Some False\<rparr>
   \<and> elements (handleMouseDown (Some \<lparr>rect_left = 0, rect_top = 0\<rparr>) ''n'' 7 7
       (initialState\<lparr>activeTool := Select,
        elements :=
          [updateElementWithPoint (createNewElement ''l'' Line \<lparr>p_x = 0, p_y = 0\<rparr> ''#000000'' 2) \<lparr>p_x = 10, p_y = 10\<rparr> [],
           updateElementWithPoint (createNewElement ''r1'' Rectangle \<lparr>p_x = 0, p_y = 0\<rparr> ''#000000'' 2) \<lparr>p_x = 10, p_y = 10\<rparr> [],
           updateElementWithPoint (createNewElement ''r2'' Rectangle \<lparr>p_x = 5, p_y = 5\<rparr> ''#000000'' 2) \<lparr>p_x = 15, p_y = 15\<rparr> []]\<rparr>)) ! 1 =
     (updateElementWithPoint (createNewElement ''r1'' Rectangle \<lparr>p_x = 0, p_y = 0\<rparr> ''#000000'' 2) \<lparr>p_x = 10, p_y = 10\<rparr> [])
       \<lparr>el_selected := Some True\<rparr>
   \<and> elements (handleMouseDown (Some \<lparr>rect_left = 0, rect_top = 0\<rparr>) ''n'' 7 7
       (initialState\<lparr>activeTool := Select,
        elements :=
          [updateElementWithPoint (createNewElement ''l'' Line \<lparr>p_x = 0, p_y = 0\<rparr> ''#000000'' 2) \<lparr>p_x = 10, p_y = 10\<rparr> [],
           updateElementWithPoint (createNewElement ''r1'' Rectangle \<lparr>p_x = 0, p_y = 0\<rparr> ''#000000'' 2) \<lparr>p_x = 10, p_y = 10\<rparr> [],
           updateElementWithPoint (createNewElement ''r2'' Rectangle \<lparr>p_x = 5, p_y = 5\<rparr> ''#000000'' 2) \<lparr>p_x = 15, p_y = 15\<rparr> []]\<rparr>)) ! 2 =
     (updateElementWithPoint (createNewElement ''r2'' Rectangle \<lparr>p_x = 5, p_y = 5\<rparr> ''#000000'' 2) \<lparr>p_x = 15, p_y = 15\<rparr> [])
       \<lparr>el_selected := Some False\<rparr>
   \<and> \<not> isPanning (handleMouseDown (Some \<lparr>rect_left = 0, rect_top = 0\<rparr>) ''n'' 7 7
       (initialState\<lparr>activeTool := Select,
        elements :=
          [updateElementWithPoint (createNewElement ''l'' Line \<lparr>p_x = 0, p_y = 0\<rparr> ''#000000'' 2) \<lparr>p_x = 10, p_y = 10\<rparr> [],
           updateElementWithPoint (createNewElement ''r1'' Rectangle \<lparr>p_x = 0, p_y = 0\<rparr> ''#000000'' 2) \<lparr>p_x = 10, p_y = 10\<rparr> [],
           updateElementWithPoint (createNewElement ''r2'' Rectangle \<lparr>p_x = 5, p_y = 5\<rparr> ''#000000'' 2) \<lparr>p_x = 15, p_y = 15\<rparr> []]\<rparr>))
   \<and> elements (handleMouseDown (Some \<lparr>rect_left = 0, rect_top = 0\<rparr>) ''n'' 100 100
       (initialState\<lparr>activeTool := Select,
        elements :=
          [updateElementWithPoint (createNewElement ''l'' Line \<lparr>p_x = 0, p_y = 0\<rparr> ''#000000'' 2) \<lparr>p_x = 10, p_y = 10\<rparr> [],
           updateElementWithPoint (createNewElement ''r1'' Rectangle \<lparr>p_x = 0, p_y = 0\<rparr> ''#000000'' 2) \<lparr>p_x = 10, p_y = 10\<rparr> [],
           updateElementWithPoint (createNewElement ''r2'' Rectangle \<lparr>p_x = 5, p_y = 5\<rparr> ''#000000'' 2) \<lparr>p_x = 15, p_y = 15\<rparr> []]\<rparr>)) ! 0 =
     (updateElementWithPoint (createNewElement ''l'' Line \<lparr>p_x = 0, p_y = 0\<rparr> ''#000000'' 2) \<lparr>p_x = 10, p_y = 10\<rparr> [])
       \<lparr>el_selected := Some False\<rparr>
   \<and> elements (handleMouseDown (Some \<lparr>rect_left = 0, rect_top = 0\<rparr>) ''n'' 100 100
       (initialState\<lparr>activeTool := Select,
        elements :=
          [updateElementWithPoint (createNewElement ''l'' Line \<lparr>p_x = 0, p_y = 0\<rparr> ''#000000'' 2) \<lparr>p_x = 10, p_y = 10\<rparr> [],
           updateElementWithPoint (createNewElement ''r1'' Rectangle \<lparr>p_x = 0, p_y = 0\<rparr> ''#000000'' 2) \<lparr>p_x = 10, p_y = 10\<rparr> [],
           updateElementWithPoint (createNewElement ''r2'' Rectangle \<lparr>p_x = 5, p_y = 5\<rparr> ''#000000'' 2) \<lparr>p_x = 15, p_y = 15\<rparr> []]\<rparr>)) ! 1 =
     (updateElementWithPoint (createNewElement ''r1'' Rectangle \<lparr>p_x = 0, p_y = 0\<rparr> ''#000000'' 2) \<lparr>p_x = 10, p_y = 10\<rparr> [])
       \<lparr>el_selected := Some False\<rparr>
   \<and> elements (handleMouseDown (Some \<lparr>rect_left = 0, rect_top = 0\<rparr>) ''n'' 100 100
       (initialState\<lparr>activeTool := Select,
        elements :=
          [updateElementWithPoint (createNewElement ''l'' Line \<lparr>p_x = 0, p_y = 0\<rparr> ''#000000'' 2) \<lparr>p_x = 10, p_y = 10\<rparr> [],
           updateElementWithPoint (createNewElement ''r1'' Rectangle \<lparr>p_x = 0, p_y = 0\<rparr> ''#000000'' 2) \<lparr>p_x = 10, p_y = 10\<rparr> [],
           updateElementWithPoint (createNewElement ''r2'' Rectangle \<lparr>p_x = 5, p_y = 5\<rparr> ''#000000'' 2) \<lparr>p_x = 15, p_y = 15\<rparr> []]\<rparr>)) ! 2 =
     (updateElementWithPoint (createNewElement ''r2'' Rectangle \<lparr>p_x = 5, p_y = 5\<rparr> ''#000000'' 2) \<lparr>p_x = 15, p_y = 15\<rparr> [])
       \<lparr>el_selected := Some False\<rparr>
   \<and> isPanning (handleMouseDown (Some \<lparr>rect_left = 0, rect_top = 0\<rparr>) ''n'' 100 100
       (initialState\<lparr>activeTool := Select,
        elements :=
          [updateElementWithPoint (createNewElement ''l'' Line \<lparr>p_x = 0, p_y = 0\<rparr> ''#000000'' 2) \<lparr>p_x = 10, p_y = 10\<rparr> [],
           updateElementWithPoint (createNewElement ''r1'' Rectangle \<lparr>p_x = 0, p_y = 0\<rparr> ''#000000'' 2) \<lparr>p_x = 10, p_y = 10\<rparr> [],
           updateElementWithPoint (createNewElement ''r2'' Rectangle \<lparr>p_x = 5, p_y = 5\<rparr> ''#000000'' 2) \<lparr>p_x = 15, p_y = 15\<rparr> []]\<rparr>))"
proof -
  let ?l = "updateElementWithPoint (createNewElement ''l'' Line \<lparr>p_x = 0, p_y = 0\<rparr> ''#000000'' 2) \<lparr>p_x = 10, p_y = 10\<rparr> []"
  let ?r1 = "updateElementWithPoint (createNewElement ''r1'' Rectangle \<lparr>p_x = 0, p_y = 0\<rparr> ''#000000'' 2) \<lparr>p_x = 10, p_y = 10\<rparr> []"
  let ?r2 = "updateElementWithPoint (createNewElement ''r2'' Rectangle \<lparr>p_x = 5, p_y = 5\<rparr> ''#000000'' 2) \<lparr>p_x = 15, p_y = 15\<rparr> []"
  let ?s = "initialState\<lparr>activeTool := Select, elements := [?l, ?r1, ?r2]\<rparr>"
  let ?c = "Some \<lparr>rect_left = 0, rect_top = 0\<rparr>"
  have tool: "activeTool ?s = Select"
    by simp
  have els: "elements ?s = [?l, ?r1, ?r2]"
    by simp
  have pan0: "\<not> isPanning ?s"
    by (simp add: initialState_def)
  have p1: "screenToCanvas ?c (viewport ?s) 7 7 = \<lparr>p_x = 7, p_y = 7\<rparr>"
    and p2: "screenToCanvas ?c (viewport ?s) 100 100 = \<lparr>p_x = 100, p_y = 100\<rparr>"
    by (simp_all add: screenToCanvas_def initialState_def)
  have ids: "distinct (map el_id (elements ?s))"
    by (simp add: createNewElement_def updateElementWithPoint_def)
  have hits: "\<not> isPointInElement \<lparr>p_x = 7, p_y = 7\<rparr> ?l" "isPointInElement \<lparr>p_x = 7, p_y = 7\<rparr> ?r1"
    and misses: "\<not> isPointInElement \<lparr>p_x = 100, p_y = 100\<rparr> ?l"
      "\<not> isPointInElement \<lparr>p_x = 100, p_y = 100\<rparr> ?r1"
      "\<not> isPointInElement \<lparr>p_x = 100, p_y = 100\<rparr> ?r2"
    by (simp_all add: isPointInElement_def createNewElement_def updateElementWithPoint_def num_or_def)
  have first: "1 < length (elements ?s) \<and>
      isPointInElement (screenToCanvas ?c (viewport ?s) 7 7) (elements ?s ! 1) \<and>
      (\<forall>j < 1. \<not> isPointInElement (screenToCanvas ?c (viewport ?s) 7 7) (elements ?s ! j))"
    unfolding p1 els using hits by simp
  have none: "\<forall>el \<in> set (elements ?s).
      \<not> isPointInElement (screenToCanvas ?c (viewport ?s) 100 100) el"
    unfolding p2 els using misses by simp
  note hit = select_first_hit [OF tool, where canvas = ?c and newId = "''n''" and cx = 7 and cy = 7
      and k = 1, THEN conjunct2, THEN conjunct1, THEN mp, OF first]
  note miss = select_first_hit [OF tool, where canvas = ?c and newId = "''n''" and cx = 100
      and cy = 100 and k = 0, THEN conjunct2, THEN conjunct2, THEN mp, OF none]
  have a: "\<forall>i < length (elements ?s).
      elements (handleMouseDown ?c ''n'' 7 7 ?s) ! i = (elements ?s ! i)\<lparr>el_selected := Some (i = 1)\<rparr>"
    using hit ids by blast
  have a0: "elements (handleMouseDown ?c ''n'' 7 7 ?s) ! 0 = ?l\<lparr>el_selected := Some False\<rparr>"
    using a [rule_format, of 0] unfolding els by simp
  have a1: "elements (handleMouseDown ?c ''n'' 7 7 ?s) ! 1 = ?r1\<lparr>el_selected := Some True\<rparr>"
    using a [rule_format, of 1] unfolding els by simp
  have a2: "elements (handleMouseDown ?c ''n'' 7 7 ?s) ! 2 = ?r2\<lparr>el_selected := Some False\<rparr>"
    using a [rule_format, of 2] unfolding els by simp
  have a3: "\<not> isPanning (handleMouseDown ?c ''n'' 7 7 ?s)"
    using hit pan0 by blast
  have b: "\<forall>i < length (elements ?s).
      elements (handleMouseDown ?c ''n'' 100 100 ?s) ! i = (elements ?s ! i)\<lparr>el_selected := Some False\<rparr>"
    using miss by blast
  have b0: "elements (handleMouseDown ?c ''n'' 100 100 ?s) ! 0 = ?l\<lparr>el_selected := Some False\<rparr>"
    using b [rule_format, of 0] unfolding els by simp
  have b1: "elements (handleMouseDown ?c ''n'' 100 100 ?s) ! 1 = ?r1\<lparr>el_selected := Some False\<rparr>"
    using b [rule_format, of 1] unfolding els by simp
  have b2: "elements (handleMouseDown ?c ''n'' 100 100 ?s) ! 2 = ?r2\<lparr>el_selected := Some False\<rparr>"
    using b [rule_format, of 2] unfolding els by simp
  have b3: "isPanning (handleMouseDown ?c ''n'' 100 100 ?s)"
    using miss by blast
  from tool ids a0 a1 a2 a3 b0 b1 b2 b3 show ?thesis
    by (intro conjI)
qed



text \<open>
  The claim as stated fails when two elements of the collection carry the same id,
  which nothing in the code excludes: a collection received from another user is
  stored as it comes. With two rectangles of id \<open>r\<close>, a click at (5, 5) lies in the
  first only, and both end up selected.
\<close>

theorem select_first_hit_counterexample:
  "activeTool ((onMessage \<lparr>u_id = ''me'', u_email = ''me@example.org'', u_displayName = ''me''\<rparr>
          (ElementsUpdate ''other''
             [updateElementWithPoint (createNewElement ''r'' Rectangle \<lparr>p_x = 0, p_y = 0\<rparr> ''#000000'' 2) \<lparr>p_x = 10, p_y = 10\<rparr> [],
              updateElementWithPoint (createNewElement ''r'' Rectangle \<lparr>p_x = 50, p_y = 50\<rparr> ''#000000'' 2) \<lparr>p_x = 60, p_y = 60\<rparr> []] 7 None)
          initialState)
       \<lparr>activeTool := Select\<rparr>) = Select
   \<and> elements ((onMessage \<lparr>u_id = ''me'', u_email = ''me@example.org'', u_displayName = ''me''\<rparr>
          (ElementsUpdate ''other''
             [updateElementWithPoint (createNewElement ''r'' Rectangle \<lparr>p_x = 0, p_y = 0\<rparr> ''#000000'' 2) \<lparr>p_x = 10, p_y = 10\<rparr> [],
              updateElementWithPoint (createNewElement ''r'' Rectangle \<lparr>p_x = 50, p_y = 50\<rparr> ''#000000'' 2) \<lparr>p_x = 60, p_y = 60\<rparr> []] 7 None)
          initialState)
       \<lparr>activeTool := Select\<rparr>) =
       [updateElementWithPoint (createNewElement ''r'' Rectangle \<lparr>p_x = 0, p_y = 0\<rparr> ''#000000'' 2) \<lparr>p_x = 10, p_y = 10\<rparr> [],
        updateElementWithPoint (createNewElement ''r'' Rectangle \<lparr>p_x = 50, p_y = 50\<rparr> ''#000000'' 2) \<lparr>p_x = 60, p_y = 60\<rparr> []]
   \<and> isPointInElement
       (screenToCanvas (Some \<lparr>rect_left = 0, rect_top = 0\<rparr>)
          (viewport ((onMessage \<lparr>u_id = ''me'', u_email = ''me@example.org'', u_displayName = ''me''\<rparr>
          (ElementsUpdate ''other''
             [updateElementWithPoint (createNewElement ''r'' Rectangle \<lparr>p_x = 0, p_y = 0\<rparr> ''#000000'' 2) \<lparr>p_x = 10, p_y = 10\<rparr> [],
              updateElementWithPoint (createNewElement ''r'' Rectangle \<lparr>p_x = 50, p_y = 50\<rparr> ''#000000'' 2) \<lparr>p_x = 60, p_y = 60\<rparr> []] 7 None)
          initialState)
       \<lparr>activeTool := Select\<rparr>)) 5 5)
       (updateElementWithPoint (createNewElement ''r'' Rectangle \<lparr>p_x = 0, p_y = 0\<rparr> ''#000000'' 2) \<lparr>p_x = 10, p_y = 10\<rparr> [])
   \<and> \<not> isPointInElement
       (screenToCanvas (Some \<lparr>rect_left = 0, rect_top = 0\<rparr>)
          (viewport ((onMessage \<lparr>u_id = ''me'', u_email = ''me@example.org'', u_displayName = ''me''\<rparr>
          (ElementsUpdate ''other''
             [updateElementWithPoint (createNewElement ''r'' Rectangle \<lparr>p_x = 0, p_y = 0\<rparr> ''#000000'' 2) \<lparr>p_x = 10, p_y = 10\<rparr> [],
              updateElementWithPoint (createNewElement ''r'' Rectangle \<lparr>p_x = 50, p_y = 50\<rparr> ''#000000'' 2) \<lparr>p_x = 60, p_y = 60\<rparr> []] 7 None)
          initialState)
       \<lparr>activeTool := Select\<rparr>)) 5 5)
       (updateElementWithPoint (createNewElement ''r'' Rectangle \<lparr>p_x = 50, p_y = 50\<rparr> ''#000000'' 2) \<lparr>p_x = 60, p_y = 60\<rparr> [])
   \<and> map el_selected
       (elements (handleMouseDown (Some \<lparr>rect_left = 0, rect_top = 0\<rparr>) ''n'' 5 5
          ((onMessage \<lparr>u_id = ''me'', u_email = ''me@example.org'', u_displayName = ''me''\<rparr>
          (ElementsUpdate ''other''
             [updateElementWithPoint (createNewElement ''r'' Rectangle \<lparr>p_x = 0, p_y = 0\<rparr> ''#000000'' 2) \<lparr>p_x = 10, p_y = 10\<rparr> [],
              updateElementWithPoint (createNewElement ''r'' Rectangle \<lparr>p_x = 50, p_y = 50\<rparr> ''#000000'' 2) \<lparr>p_x = 60, p_y = 60\<rparr> []] 7 None)
          initialState)
       \<lparr>activeTool := Select\<rparr>))) =
       [Some True, Some True]"
  by (simp add: onMessage_def handleCollaborativeElementsUpdate_def handleMouseDown_def Let_def
      screenToCanvas_def initialState_def handleElementsChange_def isPointInElement_def
      updateElementWithPoint_def createNewElement_def num_or_def)

section \<open>Committing a drawing gesture\<close>

lemma handleMouseUp_commit:
  assumes "\<not> isPanning s" and "isDrawing (drawingState s)"
    and "currentElement (drawingState s) = Some cur"
  shows "handleMouseUp now s =
           (broadcastElementChange now (elements s @ [cur])
              (handleElementsChange (elements s @ [cur]) s))
           \<lparr>drawingState := \<lparr>isDrawing = False, currentPath = [], currentElement = None\<rparr>\<rparr>"
  using assms by (simp add: handleMouseUp_def Let_def)

lemma broadcastElementChange_fields:
  "elements (broadcastElementChange now els s) = elements s"
  "history (broadcastElementChange now els s) = history s"
  "historyIndex (broadcastElementChange now els s) = historyIndex s"
  "published (broadcastElementChange now els s) =
     published s @
       (case currentUser s of
          None \<Rightarrow> []
        | Some u \<Rightarrow>
            [ElementsUpdate (u_id u) els now
               (Some \<lparr>md_displayName = Some (u_displayName u), md_color = None\<rparr>)])"
  by (simp_all add: broadcastElementChange_def split: option.splits)

lemma broadcastCursor_frame:
  "elements (broadcastCursor now cx cy s) = elements s"
  "isPanning (broadcastCursor now cx cy s) = isPanning s"
  "drawingState (broadcastCursor now cx cy s) = drawingState s"
  by (simp_all add: broadcastCursor_def split: option.splits)

lemma updateElementWithPoint_box:
  "el_type e = ''rectangle'' \<or> el_type e = ''circle'' \<or> el_type e = ''line'' \<Longrightarrow>
   updateElementWithPoint e p path =
     e\<lparr>el_width := Some (p_x p - el_x e), el_height := Some (p_y p - el_y e)\<rparr>"
  by (auto simp add: updateElementWithPoint_def)

lemma draw_rectangle_gesture:
  assumes "activeTool s = Rectangle" and "\<not> isPanning s"
    and "screenToCanvas canvas (viewport s) x1 y1 = p1"
    and "screenToCanvas canvas (viewport s) x2 y2 = p2"
  shows "elements (handleMouseUp t2 (handleMouseMove canvas t1 x2 y2
           (handleMouseDown canvas newId x1 y1 s))) =
         elements s @
           [\<lparr>el_id = newId, el_type = ''rectangle'', el_x = p_x p1, el_y = p_y p1,
             el_width = Some (p_x p2 - p_x p1), el_height = Some (p_y p2 - p_y p1),
             el_points = None, el_text = None, el_color = strokeColor s,
             el_strokeWidth = strokeWidth s, el_fill = None, el_selected = None,
             el_richNote = None\<rparr>]"
proof -
  let ?new = "createNewElement newId Rectangle p1 (strokeColor s) (strokeWidth s)"
  let ?d = "handleMouseDown canvas newId x1 y1 s"
  have d: "?d = s\<lparr>drawingState :=
                   \<lparr>isDrawing = True, currentPath = [p1], currentElement = Some ?new\<rparr>\<rparr>"
    using assms(1,3) by (simp add: handleMouseDown_def Let_def)
  let ?m = "handleMouseMove canvas t1 x2 y2 ?d"
  have upd: "updateElementWithPoint ?new p2 [p1] =
             \<lparr>el_id = newId, el_type = ''rectangle'', el_x = p_x p1, el_y = p_y p1,
              el_width = Some (p_x p2 - p_x p1), el_height = Some (p_y p2 - p_y p1),
              el_points = None, el_text = None, el_color = strokeColor s,
              el_strokeWidth = strokeWidth s, el_fill = None, el_selected = None,
              el_richNote = None\<rparr>"
    by (simp add: updateElementWithPoint_def createNewElement_def)
  have m_els: "elements ?m = elements s"
    and m_pan: "\<not> isPanning ?m"
    and m_draw: "isDrawing (drawingState ?m)"
    and m_cur: "currentElement (drawingState ?m) = Some (updateElementWithPoint ?new p2 [p1])"
    using assms(1,2,4)
    by (simp_all add: d handleMouseMove_def Let_def broadcastCursor_frame)
  have "elements (handleMouseUp t2 ?m) = elements ?m @ [updateElementWithPoint ?new p2 [p1]]"
    by (simp add: handleMouseUp_commit [OF m_pan m_draw m_cur] broadcastElementChange_fields
        handleElementsChange_fields)
  then show ?thesis
    by (simp only: m_els upd)
qed

text \<open>
  C5 (as the code has it). On pointer-up while the canvas is not panning and a drawing
  gesture is in progress, the element in progress is appended to the collection, the
  snapshot of the new collection is pushed onto the history, the drawing state is
  cleared, and the new collection is published to the channel when a user is signed in.
  While the canvas is panning, pointer-up only ends the pan. The live update of a
  rectangle, circle or line sets \<open>width = point.x - x\<close> and \<open>height = point.y - y\<close>.
  Drawing with the rectangle tool, colour #000000 and stroke width 2, from the world
  point (10, 10) to (110, 60), commits a rectangle at (10, 10) of width 100 and height
  50.
\<close>

theorem pointer_up_commits_drawing:
  "(\<not> isPanning s \<and> isDrawing (drawingState s) \<and> currentElement (drawingState s) = Some cur \<longrightarrow>
      elements (handleMouseUp now s) = elements s @ [cur]
      \<and> history (handleMouseUp now s) = take (historyIndex s + 1) (history s) @ [elements s @ [cur]]
      \<and> historyIndex (handleMouseUp now s) = length (history (handleMouseUp now s)) - 1
      \<and> drawingState (handleMouseUp now s) =
          \<lparr>isDrawing = False, currentPath = [], currentElement = None\<rparr>
      \<and> published (handleMouseUp now s) =
          published s @
            (case currentUser s of
               None \<Rightarrow> []
             | Some u \<Rightarrow>
                 [ElementsUpdate (u_id u) (elements s @ [cur]) now
                    (Some \<lparr>md_displayName = Some (u_displayName u), md_color = None\<rparr>)]))
   \<and> (isPanning s \<longrightarrow> handleMouseUp now s = s\<lparr>isPanning := False\<rparr>)
   \<and> (el_type e = ''rectangle'' \<or> el_type e = ''circle'' \<or> el_type e = ''line'' \<longrightarrow>
        updateElementWithPoint e p path =
          e\<lparr>el_width := Some (p_x p - el_x e), el_height := Some (p_y p - el_y e)\<rparr>)
   \<and> (activeTool s = Rectangle \<and> strokeColor s = ''#000000'' \<and> strokeWidth s = 2 \<and>
        \<not> isPanning s \<and>
        screenToCanvas canvas (viewport s) x1 y1 = \<lparr>p_x = 10, p_y = 10\<rparr> \<and>
        screenToCanvas canvas (viewport s) x2 y2 = \<lparr>p_x = 110, p_y = 60\<rparr> \<longrightarrow>
        elements (handleMouseUp t2 (handleMouseMove canvas t1 x2 y2
           (handleMouseDown canvas newId x1 y1 s))) =
        elements s @
          [\<lparr>el_id = newId, el_type = ''rectangle'', el_x = 10, el_y = 10,
            el_width = Some 100, el_height = Some 50,
            el_points = None, el_text = None, el_color = ''#000000'',
            el_strokeWidth = 2, el_fill = None, el_selected = None,
            el_richNote = None\<rparr>])"
proof (intro conjI impI)
  assume a: "\<not> isPanning s \<and> isDrawing (drawingState s) \<and>
             currentElement (drawingState s) = Some cur"
  have up: "handleMouseUp now s =
           (broadcastElementChange now (elements s @ [cur])
              (handleElementsChange (elements s @ [cur]) s))
           \<lparr>drawingState := \<lparr>isDrawing = False, currentPath = [], currentElement = None\<rparr>\<rparr>"
    using a by (intro handleMouseUp_commit) simp_all
  show "elements (handleMouseUp now s) = elements s @ [cur]"
    by (simp add: up broadcastElementChange_fields handleElementsChange_fields)
  show h: "history (handleMouseUp now s) =
        take (historyIndex s + 1) (history s) @ [elements s @ [cur]]"
    by (simp add: up broadcastElementChange_fields handleElementsChange_fields)
  show "historyIndex (handleMouseUp now s) = length (history (handleMouseUp now s)) - 1"
    unfolding h by (simp add: up broadcastElementChange_fields handleElementsChange_fields)
  show "drawingState (handleMouseUp now s) =
          \<lparr>isDrawing = False, currentPath = [], currentElement = None\<rparr>"
    by (simp add: up)
  show "published (handleMouseUp now s) =
          published s @
            (case currentUser s of
               None \<Rightarrow> []
             | Some u \<Rightarrow>
                 [ElementsUpdate (u_id u) (elements s @ [cur]) now
                    (Some \<lparr>md_displayName = Some (u_displayName u), md_color = None\<rparr>)])"
    by (simp add: up broadcastElementChange_fields handleElementsChange_frame)
next
  assume "isPanning s"
  then show "handleMouseUp now s = s\<lparr>isPanning := False\<rparr>"
    by (simp add: handleMouseUp_def)
next
  assume "el_type e = ''rectangle'' \<or> el_type e = ''circle'' \<or> el_type e = ''line''"
  then show "updateElementWithPoint e p path =
          e\<lparr>el_width := Some (p_x p - el_x e), el_height := Some (p_y p - el_y e)\<rparr>"
    by (rule updateElementWithPoint_box)
next
  assume a: "activeTool s = Rectangle \<and> strokeColor s = ''#000000'' \<and> strokeWidth s = 2 \<and>
        \<not> isPanning s \<and>
        screenToCanvas canvas (viewport s) x1 y1 = \<lparr>p_x = 10, p_y = 10\<rparr> \<and>
        screenToCanvas canvas (viewport s) x2 y2 = \<lparr>p_x = 110, p_y = 60\<rparr>"
  then have "elements (handleMouseUp t2 (handleMouseMove canvas t1 x2 y2
           (handleMouseDown canvas newId x1 y1 s))) =
         elements s @
           [\<lparr>el_id = newId, el_type = ''rectangle'', el_x = p_x \<lparr>p_x = 10, p_y = 10\<rparr>,
             el_y = p_y \<lparr>p_x = 10, p_y = 10\<rparr>,
             el_width = Some (p_x \<lparr>p_x = 110, p_y = 60\<rparr> - p_x \<lparr>p_x = 10, p_y = 10\<rparr>),
             el_height = Some (p_y \<lparr>p_x = 110, p_y = 60\<rparr> - p_y \<lparr>p_x = 10, p_y = 10\<rparr>),
             el_points = None, el_text = None, el_color = strokeColor s,
             el_strokeWidth = strokeWidth s, el_fill = None, el_selected = None,
             el_richNote = None\<rparr>]"
    by (intro draw_rectangle_gesture) simp_all
  with a show "elements (handleMouseUp t2 (handleMouseMove canvas t1 x2 y2
           (handleMouseDown canvas newId x1 y1 s))) =
        elements s @
          [\<lparr>el_id = newId, el_type = ''rectangle'', el_x = 10, el_y = 10,
            el_width = Some 100, el_height = Some 50,
            el_points = None, el_text = None, el_color = ''#000000'',
            el_strokeWidth = 2, el_fill = None, el_selected = None,
            el_richNote = None\<rparr>]"
    by simp
qed

text \<open>
  The witness: a signed-in user draws with the rectangle tool on the initial board,
  pointer-down at (10, 10), a move to (110, 60), pointer-up; and a pointer-up that ends
  a pan.
\<close>

theorem pointer_up_commits_drawing_witness:
  "\<not> isPanning (handleMouseMove (Some \<lparr>rect_left = 0, rect_top = 0\<rparr>) 1 110 60
       (handleMouseDown (Some \<lparr>rect_left = 0, rect_top = 0\<rparr>) ''n'' 10 10
        (initialState\<lparr>activeTool := Rectangle, currentUser := Some \<lparr>u_id = ''me'', u_email = ''me@example.org'', u_displayName = ''me''\<rparr>\<rparr>)))
   \<and> isDrawing (drawingState (handleMouseMove (Some \<lparr>rect_left = 0, rect_top = 0\<rparr>) 1 110 60
       (handleMouseDown (Some \<lparr>rect_left = 0, rect_top = 0\<rparr>) ''n'' 10 10
        (initialState\<lparr>activeTool := Rectangle, currentUser := Some \<lparr>u_id = ''me'', u_email = ''me@example.org'', u_displayName = ''me''\<rparr>\<rparr>))))
   \<and> currentElement (drawingState (handleMouseMove (Some \<lparr>rect_left = 0, rect_top = 0\<rparr>) 1 110 60
       (handleMouseDown (Some \<lparr>rect_left = 0, rect_top = 0\<rparr>) ''n'' 10 10
        (initialState\<lparr>activeTool := Rectangle, currentUser := Some \<lparr>u_id = ''me'', u_email = ''me@example.org'', u_displayName = ''me''\<rparr>\<rparr>)))) =
       Some \<lparr>el_id = ''n'', el_type = ''rectangle'', el_x = 10, el_y = 10,
         el_width = Some 100, el_height = Some 50, el_points = None, el_text = None,
         el_color = ''#000000'', el_strokeWidth = 2, el_fill = None, el_selected = None,
         el_richNote = None\<rparr>
   \<and> elements (handleMouseUp 2 (handleMouseMove (Some \<lparr>rect_left = 0, rect_top = 0\<rparr>) 1 110 60
       (handleMouseDown (Some \<lparr>rect_left = 0, rect_top = 0\<rparr>) ''n'' 10 10
        (initialState\<lparr>activeTool := Rectangle, currentUser := Some \<lparr>u_id = ''me'', u_email = ''me@example.org'', u_displayName = ''me''\<rparr>\<rparr>)))) =
       [\<lparr>el_id = ''n'', el_type = ''rectangle'', el_x = 10, el_y = 10,
         el_width = Some 100, el_height = Some 50, el_points = None, el_text = None,
         el_color = ''#000000'', el_strokeWidth = 2, el_fill = None, el_selected = None,
         el_richNote = None\<rparr>]
   \<and> history (handleMouseUp 2 (handleMouseMove (Some \<lparr>rect_left = 0, rect_top = 0\<rparr>) 1 110 60
       (handleMouseDown (Some \<lparr>rect_left = 0, rect_top = 0\<rparr>) ''n'' 10 10
        (initialState\<lparr>activeTool := Rectangle, currentUser := Some \<lparr>u_id = ''me'', u_email = ''me@example.org'', u_displayName = ''me''\<rparr>\<rparr>)))) =
       [[], [\<lparr>el_id = ''n'', el_type = ''rectangle'', el_x = 10, el_y = 10,
         el_width = Some 100, el_height = Some 50, el_points = None, el_text = None,
         el_color = ''#000000'', el_strokeWidth = 2, el_fill = None, el_selected = None,
         el_richNote = None\<rparr>]]
   \<and> drawingState (handleMouseUp 2 (handleMouseMove (Some \<lparr>rect_left = 0, rect_top = 0\<rparr>) 1 110 60
       (handleMouseDown (Some \<lparr>rect_left = 0, rect_top = 0\<rparr>) ''n'' 10 10
        (initialState\<lparr>activeTool := Rectangle, currentUser := Some \<lparr>u_id = ''me'', u_email = ''me@example.org'', u_displayName = ''me''\<rparr>\<rparr>)))) =
       \<lparr>isDrawing = False, currentPath = [], currentElement = None\<rparr>
   \<and> published (handleMouseUp 2 (handleMouseMove (Some \<lparr>rect_left = 0, rect_top = 0\<rparr>) 1 110 60
       (handleMouseDown (Some \<lparr>rect_left = 0, rect_top = 0\<rparr>) ''n'' 10 10
        (initialState\<lparr>activeTool := Rectangle, currentUser := Some \<lparr>u_id = ''me'', u_email = ''me@example.org'', u_displayName = ''me''\<rparr>\<rparr>)))) =
       [CursorMove ''me'' 110 60 1 (Some \<lparr>md_displayName = Some ''me'', md_color = Some []\<rparr>),
        ElementsUpdate ''me'' [\<lparr>el_id = ''n'', el_type = ''rectangle'', el_x = 10, el_y = 10,
         el_width = Some 100, el_height = Some 50, el_points = None, el_text = None,
         el_color = ''#000000'', el_strokeWidth = 2, el_fill = None, el_selected = None,
         el_richNote = None\<rparr>] 2
          (Some \<lparr>md_displayName = Some ''me'', md_color = None\<rparr>)]
   \<and> isPanning (handleMouseDown (Some \<lparr>rect_left = 0, rect_top = 0\<rparr>) ''n'' 10 10 (initialState\<lparr>activeTool := Select\<rparr>))
   \<and> \<not> isPanning (handleMouseUp 0 (handleMouseDown (Some \<lparr>rect_left = 0, rect_top = 0\<rparr>) ''n'' 10 10 (initialState\<lparr>activeTool := Select\<rparr>)))
   \<and> updateElementWithPoint (createNewElement ''n'' Rectangle \<lparr>p_x = 10, p_y = 10\<rparr> ''#000000'' 2) \<lparr>p_x = 110, p_y = 60\<rparr> [] =
       \<lparr>el_id = ''n'', el_type = ''rectangle'', el_x = 10, el_y = 10,
         el_width = Some 100, el_height = Some 50, el_points = None, el_text = None,
         el_color = ''#000000'', el_strokeWidth = 2, el_fill = None, el_selected = None,
         el_richNote = None\<rparr>"
proof -
  let ?c = "Some \<lparr>rect_left = 0, rect_top = 0\<rparr>"
  let ?s0 = "initialState\<lparr>activeTool := Rectangle, currentUser := Some \<lparr>u_id = ''me'', u_email = ''me@example.org'', u_displayName = ''me''\<rparr>\<rparr>"
  let ?m = "handleMouseMove ?c 1 110 60 (handleMouseDown ?c ''n'' 10 10 ?s0)"
  let ?rect = "\<lparr>el_id = ''n'', el_type = ''rectangle'', el_x = 10, el_y = 10,
         el_width = Some 100, el_height = Some 50, el_points = None, el_text = None,
         el_color = ''#000000'', el_strokeWidth = 2, el_fill = None, el_selected = None,
         el_richNote = None\<rparr>"
  let ?p = "handleMouseDown ?c ''n'' 10 10 (initialState\<lparr>activeTool := Select\<rparr>)"
  let ?new = "createNewElement ''n'' Rectangle \<lparr>p_x = 10, p_y = 10\<rparr> ''#000000'' 2"
  have m: "\<not> isPanning ?m" "isDrawing (drawingState ?m)"
    "currentElement (drawingState ?m) = Some ?rect"
    "elements ?m = []" "history ?m = [[]]" "historyIndex ?m = 0"
    "currentUser ?m = Some \<lparr>u_id = ''me'', u_email = ''me@example.org'', u_displayName = ''me''\<rparr>"
    "published ?m =
       [CursorMove ''me'' 110 60 1 (Some \<lparr>md_displayName = Some ''me'', md_color = Some []\<rparr>)]"
    by (simp_all add: handleMouseMove_def handleMouseDown_def Let_def screenToCanvas_def
        initialState_def broadcastCursor_def updateElementWithPoint_def createNewElement_def)
  have hyp: "\<not> isPanning ?m \<and> isDrawing (drawingState ?m) \<and>
             currentElement (drawingState ?m) = Some ?rect"
    using m(1-3) by (intro conjI)
  note up = pointer_up_commits_drawing [where s = ?m and cur = ?rect and now = 2,
      THEN conjunct1, THEN mp, OF hyp]
  have u1: "elements (handleMouseUp 2 ?m) = [?rect]"
    using up [THEN conjunct1] by (simp only: m(4) append_Nil)
  have u2: "history (handleMouseUp 2 ?m) = [[], [?rect]]"
    using up [THEN conjunct2, THEN conjunct1] by (simp add: m(4,5,6))
  have u3: "drawingState (handleMouseUp 2 ?m) =
       \<lparr>isDrawing = False, currentPath = [], currentElement = None\<rparr>"
    using up by blast
  have u4: "published (handleMouseUp 2 ?m) =
       [CursorMove ''me'' 110 60 1 (Some \<lparr>md_displayName = Some ''me'', md_color = Some []\<rparr>),
        ElementsUpdate ''me'' [?rect] 2 (Some \<lparr>md_displayName = Some ''me'', md_color = None\<rparr>)]"
    using up [THEN conjunct2, THEN conjunct2, THEN conjunct2, THEN conjunct2]
    by (simp add: m(4,7,8))
  have p: "isPanning ?p"
    by (simp add: handleMouseDown_def Let_def initialState_def handleElementsChange_def)
  have p': "\<not> isPanning (handleMouseUp 0 ?p)"
    using pointer_up_commits_drawing [where s = ?p and now = 0,
        THEN conjunct2, THEN conjunct1, THEN mp, OF p]
    by simp
  have ty: "el_type ?new = ''rectangle'' \<or> el_type ?new = ''circle'' \<or> el_type ?new = ''line''"
    by (simp add: createNewElement_def)
  have b: "updateElementWithPoint ?new \<lparr>p_x = 110, p_y = 60\<rparr> [] = ?rect"
    using pointer_up_commits_drawing [where e = ?new and p = "\<lparr>p_x = 110, p_y = 60\<rparr>"
        and path = "[]", THEN conjunct2, THEN conjunct2, THEN conjunct1, THEN mp, OF ty]
    by (simp add: createNewElement_def)
  from m(1-3) u1 u2 u3 u4 p p' b show ?thesis
    by (intro conjI)
qed

text \<open>
  The claim as stated fails in two places. A pan started with the select tool and not
  yet ended (the button released outside the canvas), followed by a pointer-down with
  the rectangle tool, gives a state that is both panning and drawing; the pointer-up
  there ends the pan only: nothing is committed, the gesture stays and nothing is
  published. And with no user signed in, the pointer-up commits the element and
  publishes nothing.
\<close>

theorem pointer_up_commits_drawing_counterexample:
  "isDrawing (drawingState (handleMouseDown (Some \<lparr>rect_left = 0, rect_top = 0\<rparr>) ''n2'' 10 10
        ((handleMouseDown (Some \<lparr>rect_left = 0, rect_top = 0\<rparr>) ''n1'' 10 10
          (initialState\<lparr>activeTool := Select, currentUser := Some \<lparr>u_id = ''me'', u_email = ''me@example.org'', u_displayName = ''me''\<rparr>\<rparr>))
         \<lparr>activeTool := Rectangle\<rparr>)))
   \<and> currentElement (drawingState (handleMouseDown (Some \<lparr>rect_left = 0, rect_top = 0\<rparr>) ''n2'' 10 10
        ((handleMouseDown (Some \<lparr>rect_left = 0, rect_top = 0\<rparr>) ''n1'' 10 10
          (initialState\<lparr>activeTool := Select, currentUser := Some \<lparr>u_id = ''me'', u_email = ''me@example.org'', u_displayName = ''me''\<rparr>\<rparr>))
         \<lparr>activeTool := Rectangle\<rparr>))) =
       Some (createNewElement ''n2'' Rectangle \<lparr>p_x = 10, p_y = 10\<rparr> ''#000000'' 2)
   \<and> elements (handleMouseUp 0 (handleMouseDown (Some \<lparr>rect_left = 0, rect_top = 0\<rparr>) ''n2'' 10 10
        ((handleMouseDown (Some \<lparr>rect_left = 0, rect_top = 0\<rparr>) ''n1'' 10 10
          (initialState\<lparr>activeTool := Select, currentUser := Some \<lparr>u_id = ''me'', u_email = ''me@example.org'', u_displayName = ''me''\<rparr>\<rparr>))
         \<lparr>activeTool := Rectangle\<rparr>))) = []
   \<and> isDrawing (drawingState (handleMouseUp 0 (handleMouseDown (Some \<lparr>rect_left = 0, rect_top = 0\<rparr>) ''n2'' 10 10
        ((handleMouseDown (Some \<lparr>rect_left = 0, rect_top = 0\<rparr>) ''n1'' 10 10
          (initialState\<lparr>activeTool := Select, currentUser := Some \<lparr>u_id = ''me'', u_email = ''me@example.org'', u_displayName = ''me''\<rparr>\<rparr>))
         \<lparr>activeTool := Rectangle\<rparr>))))
   \<and> published (handleMouseUp 0 (handleMouseDown (Some \<lparr>rect_left = 0, rect_top = 0\<rparr>) ''n2'' 10 10
        ((handleMouseDown (Some \<lparr>rect_left = 0, rect_top = 0\<rparr>) ''n1'' 10 10
          (initialState\<lparr>activeTool := Select, currentUser := Some \<lparr>u_id = ''me'', u_email = ''me@example.org'', u_displayName = ''me''\<rparr>\<rparr>))
         \<lparr>activeTool := Rectangle\<rparr>))) = []
   \<and> isDrawing (drawingState (handleMouseDown (Some \<lparr>rect_left = 0, rect_top = 0\<rparr>) ''n'' 10 10 (initialState\<lparr>activeTool := Rectangle\<rparr>)))
   \<and> currentElement (drawingState (handleMouseDown (Some \<lparr>rect_left = 0, rect_top = 0\<rparr>) ''n'' 10 10 (initialState\<lparr>activeTool := Rectangle\<rparr>))) =
       Some (createNewElement ''n'' Rectangle \<lparr>p_x = 10, p_y = 10\<rparr> ''#000000'' 2)
   \<and> elements (handleMouseUp 0 (handleMouseDown (Some \<lparr>rect_left = 0, rect_top = 0\<rparr>) ''n'' 10 10 (initialState\<lparr>activeTool := Rectangle\<rparr>))) =
       [createNewElement ''n'' Rectangle \<lparr>p_x = 10, p_y = 10\<rparr> ''#000000'' 2]
   \<and> published (handleMouseUp 0 (handleMouseDown (Some \<lparr>rect_left = 0, rect_top = 0\<rparr>) ''n'' 10 10 (initialState\<lparr>activeTool := Rectangle\<rparr>))) = []"
  by (simp add: handleMouseUp_def handleMouseDown_def Let_def screenToCanvas_def
      initialState_def handleElementsChange_def broadcastElementChange_def isPointInElement_def)


section \<open>Export and the live renderer\<close>









end
